theory Spec2Isabelle
  imports Complex_Main "HOL-Library.Product_Lexorder" "HOL-Library.Sublist" "HOL-Library.AList"
    "HOL-Library.Multiset"
begin

section \<open>Values the program handles\<close>

text \<open>
  A decoded JSON document, as \<^verbatim>\<open>response.json()\<close> hands it to the program: \<open>JNull\<close> is
  Python's \<^verbatim>\<open>None\<close>, \<open>JObj\<close> a \<^verbatim>\<open>dict\<close> in insertion order (its keys are distinct, as
  in any decoded dict). Numbers are rationals: the model does not tell an int from a
  float and has no NaN or infinity among JSON numbers.
\<close>

datatype json =
    JNull
  | JBool bool
  | JNum rat
  | JStr string
  | JArr "json list"
  | JObj "(string \<times> json) list"

text \<open>Python truthiness, which \<^verbatim>\<open>if x:\<close> and \<^verbatim>\<open>not x\<close> test.\<close>

fun truthy :: "json \<Rightarrow> bool" where
  "truthy JNull = False"
| "truthy (JBool b) = b"
| "truthy (JNum r) = (r \<noteq> 0)"
| "truthy (JStr s) = (s \<noteq> [])"
| "truthy (JArr xs) = (xs \<noteq> [])"
| "truthy (JObj kvs) = (kvs \<noteq> [])"

text \<open>
  The two classes of exception that the handlers of \<^verbatim>\<open>fetch_stock_data\<close> tell apart, each
  with the text \<^verbatim>\<open>str(e)\<close> gives.
\<close>

datatype exn = RequestException string | Exception string

text \<open>\<^verbatim>\<open>key in data\<close>: keys of a dict, elements of a list, substrings of a string; a
  TypeError on anything else.\<close>

fun py_in :: "string \<Rightarrow> json \<Rightarrow> exn + bool" where
  "py_in k (JObj kvs) = Inr (k \<in> set (map fst kvs))"
| "py_in k (JArr xs) = Inr (JStr k \<in> set xs)"
| "py_in k (JStr s) = Inr (sublist k s)"
| "py_in k JNull = Inl (Exception ''argument of type 'NoneType' is not iterable'')"
| "py_in k (JBool b) = Inl (Exception ''argument of type 'bool' is not iterable'')"
| "py_in k (JNum r) = Inl (Exception ''argument of type 'int' is not iterable'')"

text \<open>The text of a KeyError: the key between single quotes.\<close>

definition key_error :: "string \<Rightarrow> string" where
  "key_error k = [CHR 0x27] @ k @ [CHR 0x27]"

text \<open>\<^verbatim>\<open>data[key]\<close> with a string key: only a dict can be subscripted so.\<close>

fun py_getitem :: "json \<Rightarrow> string \<Rightarrow> exn + json" where
  "py_getitem (JObj kvs) k =
     (case map_of kvs k of
        None \<Rightarrow> Inl (Exception (key_error k))
      | Some v \<Rightarrow> Inr v)"
| "py_getitem (JArr xs) k = Inl (Exception ''list indices must be integers or slices, not str'')"
| "py_getitem (JStr s) k = Inl (Exception ''string indices must be integers'')"
| "py_getitem j k = Inl (Exception ''object is not subscriptable'')"

text \<open>\<^verbatim>\<open>data.get(key, default)\<close>: a dict method.\<close>

fun py_get :: "json \<Rightarrow> string \<Rightarrow> json \<Rightarrow> exn + json" where
  "py_get (JObj kvs) k d = Inr (case map_of kvs k of None \<Rightarrow> d | Some v \<Rightarrow> v)"
| "py_get j k d = Inl (Exception ''object has no attribute get'')"

section \<open>Data frames\<close>

text \<open>
  A pandas cell is an object taken from the payload, a float (\<open>NaN\<close> where a value is
  missing), a timestamp (nanoseconds since the epoch) or the missing timestamp \<open>NaT\<close>.
  A frame has its column labels and its rows, each row an association list over the labels.
\<close>

datatype num = NaN | Num rat

datatype cell = Obj json | Float num | Stamp int | NaT

type_synonym row = "(string \<times> cell) list"

record frame =
  columns :: "string list"
  rows :: "row list"

definition cell_at :: "string \<Rightarrow> row \<Rightarrow> cell" where
  "cell_at c r = (case map_of r c of None \<Rightarrow> Float NaN | Some x \<Rightarrow> x)"

fun is_dict :: "json \<Rightarrow> bool" where
  "is_dict (JObj kvs) = True"
| "is_dict j = False"

fun items :: "json \<Rightarrow> (string \<times> json) list" where
  "items (JObj kvs) = kvs"
| "items j = []"

text \<open>The labels of a list of records: every key, in the order of first appearance.\<close>

definition record_columns :: "json list \<Rightarrow> string list" where
  "record_columns recs = rev (remdups (rev (concat (map (\<lambda>r. map fst (items r)) recs))))"

text \<open>One record as a row over the labels \<open>cs\<close>: a key the record lacks is filled with NaN.\<close>

definition record_cell :: "json \<Rightarrow> string \<Rightarrow> cell" where
  "record_cell r c = (case map_of (items r) c of None \<Rightarrow> Float NaN | Some v \<Rightarrow> Obj v)"

definition record_row :: "string list \<Rightarrow> json \<Rightarrow> row" where
  "record_row cs r = map (\<lambda>c. (c, record_cell r c)) cs"

text \<open>
  \<^verbatim>\<open>pd.DataFrame(values)\<close>. On a list of dicts, the provider's shape, one row per dict.
  What the constructor does with any other (truthy) value is library behaviour the
  program does not fix; it is taken from outside as \<open>other\<close>: an exception text or a frame.
\<close>

definition DataFrame :: "(json \<Rightarrow> string + frame) \<Rightarrow> json \<Rightarrow> exn + frame" where
  "DataFrame other v =
     (case v of
        JArr recs \<Rightarrow>
          (if list_all is_dict recs
           then Inr \<lparr>columns = record_columns recs,
                     rows = map (record_row (record_columns recs)) recs\<rparr>
           else (case other v of Inl m \<Rightarrow> Inl (Exception m) | Inr df \<Rightarrow> Inr df))
      | _ \<Rightarrow> (case other v of Inl m \<Rightarrow> Inl (Exception m) | Inr df \<Rightarrow> Inr df))"

text \<open>\<^verbatim>\<open>df[c]\<close>: the column, or KeyError when the frame has no such label.\<close>

definition get_column :: "frame \<Rightarrow> string \<Rightarrow> exn + cell list" where
  "get_column df c =
     (if c \<in> set (columns df) then Inr (map (cell_at c) (rows df))
      else Inl (Exception (key_error c)))"

text \<open>
  \<^verbatim>\<open>df[c] = cells\<close>: every row gets its new cell; a new label is appended. The program
  only assigns a column computed from the frame itself, as many cells as there are rows.
\<close>

definition set_column :: "frame \<Rightarrow> string \<Rightarrow> cell list \<Rightarrow> frame" where
  "set_column df c cells =
     \<lparr>columns = (if c \<in> set (columns df) then columns df else columns df @ [c]),
      rows = map (\<lambda>(r, x). AList.update c x r) (zip (rows df) cells)\<rparr>"

text \<open>
  \<^verbatim>\<open>pd.to_datetime(column)\<close>, with the parser of one cell taken from outside: it raises
  (\<open>Inl\<close>, the text), gives NaT (\<open>Inr None\<close>) or a timestamp. The first cell that raises
  makes the whole call raise.
\<close>

fun to_datetime_column :: "(cell \<Rightarrow> string + int option) \<Rightarrow> cell list \<Rightarrow> exn + cell list" where
  "to_datetime_column p [] = Inr []"
| "to_datetime_column p (x # xs) =
     (case p x of
        Inl m \<Rightarrow> Inl (Exception m)
      | Inr t \<Rightarrow>
          (case to_datetime_column p xs of
             Inl e \<Rightarrow> Inl e
           | Inr ys \<Rightarrow> Inr ((case t of None \<Rightarrow> NaT | Some n \<Rightarrow> Stamp n) # ys)))"

text \<open>
  \<^verbatim>\<open>pd.to_numeric(column, errors="coerce")\<close>, with the conversion of one cell taken from
  outside: it is total, \<open>NaN\<close> standing for a cell it cannot parse.
\<close>

definition to_numeric_column :: "(cell \<Rightarrow> num) \<Rightarrow> cell list \<Rightarrow> cell list" where
  "to_numeric_column q xs = map (\<lambda>x. Float (q x)) xs"

text \<open>
  \<^verbatim>\<open>df.sort_values(c)\<close> on a datetime column: timestamps in their order, everything
  missing last. Rows of equal date keep the order they had; pandas leaves their order
  open, and nothing proved below depends on it.
\<close>

fun datetime_key :: "cell \<Rightarrow> bool \<times> int" where
  "datetime_key (Stamp n) = (False, n)"
| "datetime_key c = (True, 0)"

definition sort_values :: "string \<Rightarrow> frame \<Rightarrow> frame" where
  "sort_values c df = df\<lparr>rows := sort_key (\<lambda>r. datetime_key (cell_at c r)) (rows df)\<rparr>"

text \<open>\<^verbatim>\<open>df.tail(n)\<close>, the last \<open>n\<close> rows (all of them when there are fewer), and \<^verbatim>\<open>df.empty\<close>.\<close>

definition tail :: "nat \<Rightarrow> frame \<Rightarrow> frame" where
  "tail n df = df\<lparr>rows := drop (length (rows df) - n) (rows df)\<rparr>"

definition is_empty :: "frame \<Rightarrow> bool" where
  "is_empty df = (columns df = [] \<or> rows df = [])"

section \<open>Strings\<close>

text \<open>
  \<^verbatim>\<open>str.upper()\<close> and \<^verbatim>\<open>str.strip()\<close> on ASCII text, one \<open>char\<close> per character:
  the letters a to z are raised, and the whitespace stripped at both ends is tab, line
  feed, vertical tab, form feed, carriage return, the separators 28 to 31 and the space.
\<close>

definition upper_char :: "char \<Rightarrow> char" where
  "upper_char c =
     (let n = (of_char c :: nat) in if 97 \<le> n \<and> n \<le> 122 then char_of (n - 32) else c)"

definition upper :: "string \<Rightarrow> string" where
  "upper s = map upper_char s"

definition isspace :: "char \<Rightarrow> bool" where
  "isspace c = (let n = (of_char c :: nat) in (9 \<le> n \<and> n \<le> 13) \<or> (28 \<le> n \<and> n \<le> 32))"

definition strip :: "string \<Rightarrow> string" where
  "strip s = rev (dropWhile isspace (rev (dropWhile isspace s)))"

section \<open>The world outside the program\<close>

text \<open>One HTTP GET as \<^verbatim>\<open>requests.get(url, params=params, timeout=timeout)\<close> issues it.\<close>

record request =
  url :: string
  params :: "(string \<times> string) list"
  timeout :: nat

text \<open>
  Everything the program reads from outside:
  \<^item> \<open>API_KEY\<close>: the credential, \<^verbatim>\<open>os.getenv("TWELVE_DATA_API_KEY", "demo")\<close>;
  \<^item> \<open>now\<close>: the date of \<^verbatim>\<open>datetime.now()\<close> as a day number (the time of day plays no
    part: both dates are printed with \<^verbatim>\<open>%Y-%m-%d\<close>), a present-day clock reading, so
    that ten days before it is still a date;
  \<^item> \<open>strftime\<close>: \<^verbatim>\<open>date.strftime(format)\<close>;
  \<^item> \<open>http\<close>: the network. For a request, either the exception raised by
    \<^verbatim>\<open>requests.get\<close>, \<^verbatim>\<open>response.raise_for_status()\<close> or \<^verbatim>\<open>response.json()\<close>, or the
    decoded body;
  \<^item> \<open>to_datetime\<close>, \<open>to_numeric\<close>, \<open>DataFrame_other\<close>: the pandas conversions of one
    cell and the constructor on irregular values, see above;
  \<^item> \<open>float\<close>: Python's \<^verbatim>\<open>float(x)\<close>, a ValueError or TypeError text when it raises.
\<close>

record env =
  API_KEY :: string
  now :: int
  strftime :: "string \<Rightarrow> int \<Rightarrow> string"
  http :: "request \<Rightarrow> exn + json"
  to_datetime :: "cell \<Rightarrow> string + int option"
  to_numeric :: "cell \<Rightarrow> num"
  DataFrame_other :: "json \<Rightarrow> string + frame"
  float :: "json \<Rightarrow> string + num"

definition BASE_URL :: string where
  "BASE_URL = ''https://api.twelvedata.com''"

text \<open>\<^verbatim>\<open>timedelta(days=n)\<close>, a number of days to subtract from a date.\<close>

definition timedelta_days :: "int \<Rightarrow> int" where
  "timedelta_days n = n"

section \<open>fetch_stock_data\<close>

text \<open>Lines 28 to 45: the date window and the request.\<close>

definition time_series_request :: "env \<Rightarrow> string \<Rightarrow> request" where
  "time_series_request e symbol =
     (let end_date = now e;
          start_date = end_date - timedelta_days 10;
          start_date_str = strftime e ''%Y-%m-%d'' start_date;
          end_date_str = strftime e ''%Y-%m-%d'' end_date
      in \<lparr>url = BASE_URL @ ''/time_series'',
          params = [(''symbol'', upper symbol),
                    (''interval'', ''1day''),
                    (''start_date'', start_date_str),
                    (''end_date'', end_date_str),
                    (''apikey'', API_KEY e),
                    (''format'', ''JSON'')],
          timeout = 10\<rparr>)"

definition and_then :: "exn + 'a \<Rightarrow> ('a \<Rightarrow> exn + 'b) \<Rightarrow> exn + 'b" where
  "and_then m f = (case m of Inl x \<Rightarrow> Inl x | Inr a \<Rightarrow> f a)"

definition numeric_columns :: "string list" where
  "numeric_columns = [''open'', ''high'', ''low'', ''close'', ''volume'']"

text \<open>Lines 66 and 67, the body of the loop over \<open>numeric_columns\<close>.\<close>

definition convert_numeric :: "env \<Rightarrow> frame \<Rightarrow> string \<Rightarrow> frame" where
  "convert_numeric e df col =
     (if col \<in> set (columns df)
      then set_column df col (to_numeric_column (to_numeric e) (map (cell_at col) (rows df)))
      else df)"

text \<open>Lines 59 to 75: the frame built from \<^verbatim>\<open>data["values"]\<close>.\<close>

definition normalize_values :: "env \<Rightarrow> json \<Rightarrow> exn + frame" where
  "normalize_values e v =
     and_then (DataFrame (DataFrame_other e) v) (\<lambda>df.
     and_then (get_column df ''datetime'') (\<lambda>cells.
     and_then (to_datetime_column (to_datetime e) cells) (\<lambda>stamps.
       Inr (tail 7 (sort_values ''datetime''
              (foldl (convert_numeric e) (set_column df ''datetime'' stamps) numeric_columns))))))"

definition no_data_message :: "string \<Rightarrow> string" where
  "no_data_message symbol =
     ''No data found for symbol '' @ symbol @ ''. Please check if the symbol is valid.''"

text \<open>
  Lines 50 to 75, what the \<^verbatim>\<open>try\<close> block does with the decoded body. The result is the
  pair the function returns: the frame or \<^verbatim>\<open>None\<close>, and the error, \<open>JNull\<close> for \<^verbatim>\<open>None\<close>.
\<close>

definition check_and_normalize :: "env \<Rightarrow> string \<Rightarrow> json \<Rightarrow> exn + (frame option \<times> json)" where
  "check_and_normalize e symbol data =
     and_then (py_in ''status'' data) (\<lambda>has_status.
     and_then (if has_status
               then and_then (py_getitem data ''status'') (\<lambda>s. Inr (s = JStr ''error''))
               else Inr False) (\<lambda>is_error.
       if is_error
       then and_then (py_get data ''message'' (JStr ''API returned an error'')) (\<lambda>m. Inr (None, m))
       else
         and_then (py_in ''values'' data) (\<lambda>has_values.
         and_then (if \<not> has_values then Inr True
                   else and_then (py_getitem data ''values'') (\<lambda>v. Inr (\<not> truthy v))) (\<lambda>no_values.
           if no_values
           then Inr (None, JStr (no_data_message symbol))
           else and_then (py_getitem data ''values'') (\<lambda>v.
                and_then (normalize_values e v) (\<lambda>df. Inr (Some df, JNull)))))))"

text \<open>
  The function: the request is issued (and logged), the body is checked, and the two
  handlers turn every exception into a message. The third argument is the list of the
  requests sent so far.
\<close>

definition fetch_stock_data ::
  "env \<Rightarrow> string \<Rightarrow> request list \<Rightarrow> (frame option \<times> json) \<times> request list" where
  "fetch_stock_data e symbol sent =
     (let req = time_series_request e symbol
      in (case and_then (http e req) (check_and_normalize e symbol) of
            Inr result \<Rightarrow> result
          | Inl (RequestException m) \<Rightarrow> (None, JStr (''Network error: '' @ m))
          | Inl (Exception m) \<Rightarrow> (None, JStr (''Error processing data: '' @ m)),
          sent @ [req]))"

section \<open>fetch_current_quote\<close>

definition quote_request :: "env \<Rightarrow> string \<Rightarrow> request" where
  "quote_request e symbol =
     \<lparr>url = BASE_URL @ ''/quote'',
      params = [(''symbol'', upper symbol), (''apikey'', API_KEY e)],
      timeout = 10\<rparr>"

text \<open>The bare \<^verbatim>\<open>except\<close> turns every exception into \<^verbatim>\<open>None\<close>, here \<open>JNull\<close>.\<close>

definition fetch_current_quote :: "env \<Rightarrow> string \<Rightarrow> request list \<Rightarrow> json \<times> request list" where
  "fetch_current_quote e symbol sent =
     (let req = quote_request e symbol
      in (case and_then (http e req) (\<lambda>data.
                and_then (py_in ''status'' data) (\<lambda>has_status.
                and_then (if has_status
                          then and_then (py_getitem data ''status'') (\<lambda>s. Inr (s = JStr ''error''))
                          else Inr False) (\<lambda>is_error.
                  Inr (if is_error then JNull else data)))) of
            Inr q \<Rightarrow> q
          | Inl x \<Rightarrow> JNull,
          sent @ [req]))"

section \<open>What the page shows\<close>

text \<open>\<^verbatim>\<open>go.Candlestick\<close> with its layout, as \<^verbatim>\<open>create_price_chart\<close> fills it.\<close>

record chart =
  chart_x :: "cell list"
  chart_open :: "cell list"
  chart_high :: "cell list"
  chart_low :: "cell list"
  chart_close :: "cell list"
  chart_name :: string
  chart_title :: string

text \<open>
  The Streamlit calls of \<^verbatim>\<open>main\<close> and \<^verbatim>\<open>display_stock_info\<close>, in the order they are made:
  \<^item> \<open>Error_invalid_symbol\<close>: line 186, the validation error;
  \<^item> \<open>Error_fetch err\<close> and \<open>Info_tip\<close>: lines 196 and 197, \<open>err\<close> the value put in the text;
  \<^item> \<open>Error_no_data symbol\<close>: line 201;
  \<^item> \<open>Success symbol\<close>: line 205;
  \<^item> \<open>Metric col label value delta\<close>: \<^verbatim>\<open>col.metric(label, value, delta)\<close>, \<open>col\<close> one of
    the four columns, \<open>value\<close> the number printed with two decimals after the dollar
    sign, \<open>delta\<close> the number printed as a percentage, when given;
  \<^item> \<open>Subheader symbol\<close>, \<open>Plotly_chart\<close>: lines 211 to 213;
  \<^item> \<open>Dataframe\<close>: line 228, one row of Date, Open, High, Low, Close, Volume per day;
  \<^item> \<open>Info_instructions\<close>: lines 232 to 263.
\<close>

datatype ui =
    Error_invalid_symbol
  | Error_fetch json
  | Info_tip
  | Error_no_data string
  | Success string
  | Metric nat string num "num option"
  | Subheader string
  | Plotly_chart chart
  | Dataframe "cell list list"
  | Info_instructions

text \<open>
  A stretch of code shows some elements and then either ends or raises; \<open>seq\<close> runs
  stretches one after the other and stops at the first that raises.
\<close>

type_synonym shown = "ui list \<times> exn option"

definition emit :: "exn + ui list \<Rightarrow> shown" where
  "emit m = (case m of Inl x \<Rightarrow> ([], Some x) | Inr out \<Rightarrow> (out, None))"

fun seq :: "shown list \<Rightarrow> shown" where
  "seq [] = ([], None)"
| "seq ((out, Some x) # rest) = (out, Some x)"
| "seq ((out, None) # rest) = (case seq rest of (out', r) \<Rightarrow> (out @ out', r))"

text \<open>\<^verbatim>\<open>float(x)\<close> in the environment, its exception as an \<open>exn\<close>.\<close>

definition py_float :: "env \<Rightarrow> json \<Rightarrow> exn + num" where
  "py_float e j = (case float e j of Inl m \<Rightarrow> Inl (Exception m) | Inr x \<Rightarrow> Inr x)"

text \<open>
  \<^verbatim>\<open>Series.max()\<close> and \<^verbatim>\<open>Series.min()\<close> of a float column: NaN cells are skipped, and a
  column of nothing but NaN gives NaN. A column that \<^verbatim>\<open>pd.to_numeric\<close> has converted is
  a float column; on any other column the model lets the formatting with \<^verbatim>\<open>.2f\<close> raise.
\<close>

fun float_values :: "cell list \<Rightarrow> rat list option" where
  "float_values [] = Some []"
| "float_values (Float NaN # cs) = float_values cs"
| "float_values (Float (Num r) # cs) = map_option ((#) r) (float_values cs)"
| "float_values (c # cs) = None"

definition series_max :: "cell list \<Rightarrow> exn + num" where
  "series_max cs =
     (case float_values cs of
        None \<Rightarrow> Inl (Exception ''unsupported format string'')
      | Some [] \<Rightarrow> Inr NaN
      | Some (r # rs) \<Rightarrow> Inr (Num (fold max rs r)))"

definition series_min :: "cell list \<Rightarrow> exn + num" where
  "series_min cs =
     (case float_values cs of
        None \<Rightarrow> Inl (Exception ''unsupported format string'')
      | Some [] \<Rightarrow> Inr NaN
      | Some (r # rs) \<Rightarrow> Inr (Num (fold min rs r)))"

section \<open>display_stock_info\<close>

definition display_stock_info :: "env \<Rightarrow> json \<Rightarrow> frame option \<Rightarrow> shown" where
  "display_stock_info e quote_data df =
     (if truthy quote_data \<and> df \<noteq> None
      then seq
        [emit (and_then (py_get quote_data ''close'' JNull) (\<lambda>current_price.
           if truthy current_price
           then and_then (py_float e current_price) (\<lambda>p.
                  Inr [Metric 1 ''Current Price'' p None])
           else Inr [])),
         emit (and_then (py_get quote_data ''change'' JNull) (\<lambda>change.
               and_then (py_get quote_data ''percent_change'' JNull) (\<lambda>percent_change.
           if truthy change \<and> truthy percent_change
           then and_then (py_float e change) (\<lambda>c.
                and_then (py_float e percent_change) (\<lambda>pc.
                  Inr [Metric 2 ''Daily Change'' c (Some pc)]))
           else Inr []))),
         emit (if \<not> is_empty (the df)
           then and_then (get_column (the df) ''high'') (\<lambda>highs.
                and_then (series_max highs) (\<lambda>week_high.
                and_then (get_column (the df) ''low'') (\<lambda>lows.
                and_then (series_min lows) (\<lambda>week_low.
                  Inr [Metric 3 ''7-Day High'' week_high None,
                       Metric 4 ''7-Day Low'' week_low None]))))
           else Inr [])]
      else ([], None))"

section \<open>create_price_chart\<close>

definition create_price_chart :: "frame \<Rightarrow> string \<Rightarrow> exn + chart" where
  "create_price_chart df symbol =
     and_then (get_column df ''datetime'') (\<lambda>x.
     and_then (get_column df ''open'') (\<lambda>os.
     and_then (get_column df ''high'') (\<lambda>hs.
     and_then (get_column df ''low'') (\<lambda>ls.
     and_then (get_column df ''close'') (\<lambda>cs.
       Inr \<lparr>chart_x = x, chart_open = os, chart_high = hs, chart_low = ls, chart_close = cs,
            chart_name = upper symbol @ '' Price'',
            chart_title = upper symbol @ '' - 7-Day Price Chart''\<rparr>)))))"

section \<open>main\<close>

text \<open>
  Lines 216 to 228: the table under "View Raw Data". The \<^verbatim>\<open>.dt\<close> accessor needs a column of
  timestamps, and selecting the six columns raises KeyError at the first one missing.
\<close>

fun is_datetime :: "cell \<Rightarrow> bool" where
  "is_datetime (Stamp n) = True"
| "is_datetime NaT = True"
| "is_datetime c = False"

definition raw_data_table :: "frame \<Rightarrow> exn + cell list list" where
  "raw_data_table df =
     and_then (get_column df ''datetime'') (\<lambda>ds.
       if \<not> list_all is_datetime ds
       then Inl (Exception ''Can only use .dt accessor with datetimelike values'')
       else
         (case filter (\<lambda>c. c \<notin> set (columns df)) numeric_columns of
            c # cs \<Rightarrow> Inl (Exception (key_error c))
          | [] \<Rightarrow>
              Inr (map (\<lambda>r. cell_at ''datetime'' r # map (\<lambda>c. cell_at c r) numeric_columns)
                     (rows df))))"

text \<open>
  One run of the script on the text of the input field. The result: what is shown, the
  exception that ends the run if one escapes, and the requests sent. The button plays
  no part: \<^verbatim>\<open>symbol and (search_button or symbol)\<close> is the truth of \<^verbatim>\<open>symbol\<close>.
\<close>

definition main :: "env \<Rightarrow> string \<Rightarrow> shown \<times> request list" where
  "main e text_input =
     (if text_input \<noteq> []
      then
        (let symbol = upper (strip text_input)
         in if length symbol < 1 \<or> length symbol > 10
            then (([Error_invalid_symbol], None), [])
            else
              (case fetch_stock_data e symbol [] of ((df, error), sent1) \<Rightarrow>
               case fetch_current_quote e symbol sent1 of (quote_data, sent2) \<Rightarrow>
                 if truthy error
                 then (([Error_fetch error, Info_tip], None), sent2)
                 else if df = None \<or> is_empty (the df)
                 then (([Error_no_data symbol], None), sent2)
                 else
                   (seq [([Success symbol], None),
                         display_stock_info e quote_data df,
                         ([Subheader symbol], None),
                         emit (and_then (create_price_chart (the df) symbol) (\<lambda>c.
                                 Inr [Plotly_chart c])),
                         emit (and_then (raw_data_table (the df)) (\<lambda>t. Inr [Dataframe t]))],
                    sent2)))
      else (([Info_instructions], None), []))"

section \<open>An environment to run the program in\<close>

text \<open>
  The theorems below hold in every environment. To run the program on a concrete payload
  one environment is fixed here. Its clock stands on day 19737 and prints that day as
  15 January 2024 and the day ten days earlier as 5 January 2024. Its date parser reads
  an ISO date \<^verbatim>\<open>YYYY-MM-DD\<close> as the number \<^verbatim>\<open>YYYYMMDD\<close>, which orders dates as time does; its
  number parser reads a JSON number, or a string of digits with an optional sign and
  fraction. Its frame constructor raises on every value that is not a list of records;
  pandas accepts some of them, and the program then fails on the missing \<^verbatim>\<open>datetime\<close>
  column instead.
\<close>

fun digit :: "char \<Rightarrow> nat option" where
  "digit c = (let n = (of_char c :: nat) in if 48 \<le> n \<and> n \<le> 57 then Some (n - 48) else None)"

fun parse_digits :: "nat \<Rightarrow> string \<Rightarrow> nat option" where
  "parse_digits acc [] = Some acc"
| "parse_digits acc (c # cs) =
     (case digit c of None \<Rightarrow> None | Some d \<Rightarrow> parse_digits (10 * acc + d) cs)"

definition parse_decimal :: "string \<Rightarrow> rat option" where
  "parse_decimal s =
     (let neg = (take 1 s = ''-'');
          body = (if neg then drop 1 s else s);
          ip = takeWhile (\<lambda>c. c \<noteq> CHR ''.'') body;
          fp = drop (length ip + 1) body
      in if ip = [] then None
         else (case (parse_digits 0 ip, parse_digits 0 fp) of
                 (Some a, Some b) \<Rightarrow>
                   Some ((if neg then - 1 else 1) * (of_nat a + of_nat b / 10 ^ length fp))
               | _ \<Rightarrow> None))"

fun example_to_datetime :: "cell \<Rightarrow> string + int option" where
  "example_to_datetime (Obj (JStr s)) =
     (if length s = 10 \<and> s ! 4 = CHR ''-'' \<and> s ! 7 = CHR ''-''
      then (case parse_digits 0 (filter (\<lambda>c. c \<noteq> CHR ''-'') s) of
              None \<Rightarrow> Inl (''Unknown datetime string format, unable to parse: '' @ s)
            | Some n \<Rightarrow> Inr (Some (int n)))
      else Inl (''Unknown datetime string format, unable to parse: '' @ s))"
| "example_to_datetime (Obj JNull) = Inr None"
| "example_to_datetime (Float NaN) = Inr None"
| "example_to_datetime NaT = Inr None"
| "example_to_datetime (Stamp n) = Inr (Some n)"
| "example_to_datetime c = Inl ''cannot convert the value to datetime''"

fun example_to_numeric :: "cell \<Rightarrow> num" where
  "example_to_numeric (Obj (JNum r)) = Num r"
| "example_to_numeric (Obj (JStr s)) = (case parse_decimal s of None \<Rightarrow> NaN | Some r \<Rightarrow> Num r)"
| "example_to_numeric (Float x) = x"
| "example_to_numeric c = NaN"

fun example_float :: "json \<Rightarrow> string + num" where
  "example_float (JNum r) = Inr (Num r)"
| "example_float (JStr s) =
     (case parse_decimal s of
        None \<Rightarrow> Inl (''could not convert string to float: '' @ s)
      | Some r \<Rightarrow> Inr (Num r))"
| "example_float j = Inl ''float() argument must be a string or a real number''"

definition example_strftime :: "string \<Rightarrow> int \<Rightarrow> string" where
  "example_strftime fmt d =
     (if fmt = ''%Y-%m-%d'' \<and> d = 19737 then ''2024-01-15''
      else if fmt = ''%Y-%m-%d'' \<and> d = 19727 then ''2024-01-05''
      else fmt)"

definition example_env :: "(request \<Rightarrow> exn + json) \<Rightarrow> env" where
  "example_env net =
     \<lparr>API_KEY = ''demo'',
      now = 19737,
      strftime = example_strftime,
      http = net,
      to_datetime = example_to_datetime,
      to_numeric = example_to_numeric,
      DataFrame_other = (\<lambda>v. Inl ''DataFrame constructor not properly called!''),
      float = example_float\<rparr>"

text \<open>
  Networks: \<open>serve ts q\<close> answers the time-series request with the body \<open>ts\<close> and the quote
  request with \<open>q\<close>; under \<open>serve_without_quote ts\<close> the quote request times out.
\<close>

definition serve :: "json \<Rightarrow> json \<Rightarrow> request \<Rightarrow> exn + json" where
  "serve ts q req =
     (if url req = ''https://api.twelvedata.com/time_series'' then Inr ts
      else if url req = ''https://api.twelvedata.com/quote'' then Inr q
      else Inl (RequestException ''404 Client Error: Not Found''))"

definition serve_without_quote :: "json \<Rightarrow> request \<Rightarrow> exn + json" where
  "serve_without_quote ts req =
     (if url req = ''https://api.twelvedata.com/time_series'' then Inr ts
      else Inl (RequestException ''Read timed out. (read timeout=10)''))"

text \<open>One daily record of the provider, every field a string.\<close>

definition bar :: "string \<Rightarrow> string \<Rightarrow> string \<Rightarrow> string \<Rightarrow> string \<Rightarrow> string \<Rightarrow> json" where
  "bar d o' h l c v =
     JObj [(''datetime'', JStr d), (''open'', JStr o'), (''high'', JStr h), (''low'', JStr l),
           (''close'', JStr c), (''volume'', JStr v)]"

text \<open>Nine trading days of a ten-day window, newest first as the provider sends them.\<close>

definition nine_days :: json where
  "nine_days = JObj
     [(''meta'', JObj [(''symbol'', JStr ''AAPL''), (''interval'', JStr ''1day'')]),
      (''values'', JArr
        [bar ''2024-01-15'' ''150.00'' ''152.00'' ''149.00'' ''150.25'' ''1000'',
         bar ''2024-01-12'' ''151.00'' ''153.00'' ''150.00'' ''151.75'' ''1100'',
         bar ''2024-01-11'' ''152.00'' ''155.00'' ''151.00'' ''152.50'' ''1200'',
         bar ''2024-01-10'' ''151.50'' ''154.00'' ''150.50'' ''153.00'' ''1300'',
         bar ''2024-01-09'' ''150.50'' ''153.50'' ''149.50'' ''152.00'' ''1400'',
         bar ''2024-01-08'' ''149.00'' ''152.50'' ''148.00'' ''151.00'' ''1500'',
         bar ''2024-01-05'' ''149.50'' ''151.50'' ''148.50'' ''150.00'' ''1600'',
         bar ''2024-01-04'' ''148.00'' ''150.00'' ''147.00'' ''149.00'' ''1700'',
         bar ''2024-01-03'' ''147.00'' ''149.00'' ''146.00'' ''148.00'' ''1800'']),
      (''status'', JStr ''ok'')]"

text \<open>The quote of the spec's example.\<close>

definition mock_quote :: json where
  "mock_quote = JObj
     [(''symbol'', JStr ''AAPL''), (''close'', JStr ''150.25''), (''change'', JStr ''-1.50''),
      (''percent_change'', JStr ''-0.99'')]"

text \<open>
  One trading day as the provider sends it, and one whose opening price is no number and
  whose volume is null.
\<close>

definition one_day :: json where
  "one_day = JObj
     [(''values'', JArr [bar ''2024-01-15'' ''150.00'' ''155.00'' ''148.00'' ''150.25'' ''1000'']),
      (''status'', JStr ''ok'')]"

definition patchy_day :: json where
  "patchy_day = JObj
     [(''values'', JArr
        [JObj [(''datetime'', JStr ''2024-01-15''), (''open'', JStr ''N/A''),
               (''high'', JStr ''155.00''), (''low'', JStr ''148.00''),
               (''close'', JStr ''150.25''), (''volume'', JNull)]]),
      (''status'', JStr ''ok'')]"

text \<open>
  The frame \<^verbatim>\<open>fetch_stock_data\<close> makes of \<open>one_day\<close>, and a frame of two days with a week
  high of 155 and a week low of 148.
\<close>

definition day_row :: "int \<Rightarrow> rat \<Rightarrow> rat \<Rightarrow> rat \<Rightarrow> rat \<Rightarrow> rat \<Rightarrow> row" where
  "day_row d o' h l c v =
     [(''datetime'', Stamp d), (''open'', Float (Num o')), (''high'', Float (Num h)),
      (''low'', Float (Num l)), (''close'', Float (Num c)), (''volume'', Float (Num v))]"

definition one_day_frame :: frame where
  "one_day_frame =
     \<lparr>columns = [''datetime'', ''open'', ''high'', ''low'', ''close'', ''volume''],
      rows = [day_row 20240115 150 155 148 150.25 1000]\<rparr>"

definition two_days :: frame where
  "two_days =
     \<lparr>columns = [''datetime'', ''open'', ''high'', ''low'', ''close'', ''volume''],
      rows = [day_row 20240112 151 155 150 151.75 1100,
              day_row 20240115 150 152 148 150.25 1000]\<rparr>"

section \<open>Auxiliary facts\<close>

lemma and_then_Inr [simp]: "and_then (Inr a) f = f a"
  by (simp add: and_then_def)

lemma and_then_Inl [simp]: "and_then (Inl x) f = Inl x"
  by (simp add: and_then_def)

lemma and_then_eq_Inr: "and_then m f = Inr b \<longleftrightarrow> (\<exists>a. m = Inr a \<and> f a = Inr b)"
  by (cases m) simp_all

lemma py_in_dict: "py_in k (JObj kvs) = Inr (map_of kvs k \<noteq> None)"
  by (simp add: map_of_eq_None_iff)

lemma check_error_status:
  assumes "map_of kvs ''status'' = Some (JStr ''error'')"
  shows "check_and_normalize e symbol (JObj kvs) =
           Inr (None, case map_of kvs ''message'' of
                        None \<Rightarrow> JStr ''API returned an error''
                      | Some m \<Rightarrow> m)"
  using assms by (simp add: check_and_normalize_def py_in_dict del: py_in.simps)

lemma check_no_values:
  assumes "map_of kvs ''status'' \<noteq> Some (JStr ''error'')"
    and "map_of kvs ''values'' = None \<or> (\<exists>v. map_of kvs ''values'' = Some v \<and> \<not> truthy v)"
  shows "check_and_normalize e symbol (JObj kvs) = Inr (None, JStr (no_data_message symbol))"
  using assms
  by (auto simp add: check_and_normalize_def py_in_dict simp del: py_in.simps
        split: option.splits)

text \<open>The three ways in which the checks of lines 52 to 75 return.\<close>

lemma check_cases:
  assumes "check_and_normalize e symbol data = Inr (df, err)"
  shows "(df \<noteq> None \<and> err = JNull)
       \<or> (df = None \<and> err = JStr (no_data_message symbol))
       \<or> (df = None \<and> (\<exists>kvs. data = JObj kvs \<and> map_of kvs ''status'' = Some (JStr ''error'')
             \<and> err = (case map_of kvs ''message'' of
                         None \<Rightarrow> JStr ''API returned an error''
                       | Some m \<Rightarrow> m)))"
proof (cases data)
  case (JObj kvs)
  show ?thesis
  proof (cases "map_of kvs ''status'' = Some (JStr ''error'')")
    case True
    with assms JObj show ?thesis by (simp add: check_error_status)
  next
    case False
    with assms JObj show ?thesis
      by (auto simp add: check_and_normalize_def py_in_dict and_then_eq_Inr
            simp del: py_in.simps split: option.splits if_splits)
  qed
next
  case (JArr xs)
  with assms show ?thesis
    by (auto simp add: check_and_normalize_def and_then_eq_Inr split: if_splits)
next
  case (JStr s)
  with assms show ?thesis
    by (auto simp add: check_and_normalize_def and_then_eq_Inr split: if_splits)
qed (use assms in \<open>simp_all add: check_and_normalize_def\<close>)

lemma fst_fetch:
  "fst (fetch_stock_data e symbol sent) =
     (case and_then (http e (time_series_request e symbol)) (check_and_normalize e symbol) of
        Inr result \<Rightarrow> result
      | Inl (RequestException m) \<Rightarrow> (None, JStr (''Network error: '' @ m))
      | Inl (Exception m) \<Rightarrow> (None, JStr (''Error processing data: '' @ m)))"
  by (simp add: fetch_stock_data_def Let_def)

lemma example_http: "http (example_env net) = net"
  by (simp add: example_env_def)

lemma url_time_series_request:
  "url (time_series_request e symbol) = ''https://api.twelvedata.com/time_series''"
  by (simp add: time_series_request_def BASE_URL_def Let_def)

lemma url_quote_request:
  "url (quote_request e symbol) = ''https://api.twelvedata.com/quote''"
  by (simp add: quote_request_def BASE_URL_def)

lemma serve_time_series: "serve ts q (time_series_request e symbol) = Inr ts"
  by (simp add: serve_def url_time_series_request)

subsection \<open>Frames built from records\<close>

lemma set_record_columns:
  "set (record_columns recs) = (\<Union>r \<in> set recs. fst ` set (items r))"
  by (auto simp add: record_columns_def)

lemma map_of_tabulate:
  "map_of (map (\<lambda>c. (c, f c)) cs) k = (if k \<in> set cs then Some (f k) else None)"
  by (induction cs) auto

lemma record_cell_no_key:
  "c \<notin> fst ` set (items r) \<Longrightarrow> record_cell r c = Float NaN"
  using map_of_eq_None_iff [of "items r" c] by (simp add: record_cell_def)

lemma cell_at_record_row:
  "cell_at c (record_row cs r) = (if c \<in> set cs then record_cell r c else Float NaN)"
  by (simp add: cell_at_def record_row_def map_of_tabulate)

lemma cell_at_record_row_columns:
  assumes "r \<in> set recs"
  shows "cell_at c (record_row (record_columns recs) r) = record_cell r c"
proof (cases "c \<in> set (record_columns recs)")
  case True
  then show ?thesis by (simp add: cell_at_record_row)
next
  case False
  with assms have "c \<notin> fst ` set (items r)"
    by (auto simp add: set_record_columns)
  with False show ?thesis
    by (simp add: cell_at_record_row record_cell_no_key)
qed

lemma cell_at_update:
  "cell_at c (AList.update k v r) = (if c = k then v else cell_at c r)"
  by (simp add: cell_at_def update_conv')

lemma map_zip_same:
  "map (\<lambda>(r, x). g r x) (zip xs (map f xs)) = map (\<lambda>r. g r (f r)) xs"
  by (induction xs) simp_all

lemma rows_set_column_map:
  "rows (set_column df c (map f (rows df))) = map (\<lambda>r. AList.update c (f r) r) (rows df)"
  by (simp add: set_column_def map_zip_same)

lemma columns_set_column:
  "c \<in> set (columns df) \<Longrightarrow> columns (set_column df c xs) = columns df"
  by (simp add: set_column_def)

lemma to_datetime_column_ok:
  assumes "\<forall>x \<in> set xs. \<exists>t. p x = Inr t"
  shows "to_datetime_column p xs =
           Inr (map (\<lambda>x. case p x of Inr (Some n) \<Rightarrow> Stamp n | _ \<Rightarrow> NaT) xs)"
  using assms by (induction xs) (auto split: option.splits)

lemma columns_convert_numeric: "columns (convert_numeric e df c) = columns df"
  by (simp add: convert_numeric_def columns_set_column)

lemma rows_convert_numeric:
  "rows (convert_numeric e df c) =
     map (\<lambda>r. if c \<in> set (columns df)
               then AList.update c (Float (to_numeric e (cell_at c r))) r else r) (rows df)"
proof (cases "c \<in> set (columns df)")
  case True
  have "to_numeric_column (to_numeric e) (map (cell_at c) (rows df)) =
          map (\<lambda>r. Float (to_numeric e (cell_at c r))) (rows df)"
    by (simp add: to_numeric_column_def)
  with True show ?thesis
    by (simp add: convert_numeric_def rows_set_column_map)
next
  case False
  then show ?thesis by (simp add: convert_numeric_def)
qed

lemma columns_foldl_convert: "columns (foldl (convert_numeric e) df cs) = columns df"
  by (induction cs arbitrary: df) (simp_all add: columns_convert_numeric)

lemma length_rows_foldl_convert: "length (rows (foldl (convert_numeric e) df cs)) = length (rows df)"
  by (induction cs arbitrary: df) (simp_all add: rows_convert_numeric)

lemma column_convert_numeric:
  "map (cell_at k) (rows (convert_numeric e df c)) =
     map (\<lambda>r. if k = c \<and> c \<in> set (columns df) then Float (to_numeric e (cell_at c r)) else cell_at k r)
       (rows df)"
  by (auto simp add: rows_convert_numeric cell_at_update)

lemma column_foldl_convert:
  assumes "distinct cs"
  shows "map (cell_at k) (rows (foldl (convert_numeric e) df cs)) =
     map (\<lambda>r. if k \<in> set cs \<and> k \<in> set (columns df) then Float (to_numeric e (cell_at k r)) else cell_at k r)
       (rows df)"
  using assms
proof (induction cs arbitrary: df)
  case Nil
  then show ?case by simp
next
  case (Cons c cs)
  have "map (cell_at k) (rows (foldl (convert_numeric e) df (c # cs)))
      = map (cell_at k) (rows (foldl (convert_numeric e) (convert_numeric e df c) cs))"
    by simp
  also have "\<dots> = map (\<lambda>r. if k \<in> set cs \<and> k \<in> set (columns df)
                              then Float (to_numeric e (cell_at k r)) else cell_at k r)
                     (rows (convert_numeric e df c))"
    using Cons by (simp add: columns_convert_numeric)
  also have "\<dots> = map (\<lambda>r. if k \<in> set (c # cs) \<and> k \<in> set (columns df)
                              then Float (to_numeric e (cell_at k r)) else cell_at k r) (rows df)"
    using Cons.prems by (auto simp add: rows_convert_numeric cell_at_update)
  finally show ?case .
qed

lemma distinct_numeric_columns: "distinct numeric_columns" "''datetime'' \<notin> set numeric_columns"
  by (simp_all add: numeric_columns_def)

lemma DataFrame_records:
  "list_all is_dict recs \<Longrightarrow>
   DataFrame other (JArr recs) =
     Inr \<lparr>columns = record_columns recs, rows = map (record_row (record_columns recs)) recs\<rparr>"
  by (simp add: DataFrame_def)

lemma normalize_values_records:
  assumes dicts: "list_all is_dict recs"
    and key: "''datetime'' \<in> set (record_columns recs)"
    and parse: "\<forall>r \<in> set recs. \<exists>t. to_datetime e (record_cell r ''datetime'') = Inr t"
  shows "\<exists>rs. normalize_values e (JArr recs) =
              Inr \<lparr>columns = record_columns recs,
                   rows = drop (length recs - 7)
                            (sort_key (\<lambda>r. datetime_key (cell_at ''datetime'' r)) rs)\<rparr>
            \<and> length rs = length recs
            \<and> (\<forall>k. map (cell_at k) rs =
                  map (\<lambda>r. if k = ''datetime''
                            then (case to_datetime e (record_cell r k) of
                                    Inr (Some n) \<Rightarrow> Stamp n | _ \<Rightarrow> NaT)
                            else if k \<in> set numeric_columns \<and> k \<in> set (record_columns recs)
                            then Float (to_numeric e (record_cell r k))
                            else record_cell r k) recs)"
proof -
  let ?cols = "record_columns recs"
  let ?df0 = "\<lparr>columns = ?cols, rows = map (record_row ?cols) recs\<rparr>"
  let ?f = "\<lambda>r. case to_datetime e (cell_at ''datetime'' r) of Inr (Some n) \<Rightarrow> Stamp n | _ \<Rightarrow> NaT"
  let ?df1 = "set_column ?df0 ''datetime'' (map ?f (rows ?df0))"
  let ?df2 = "foldl (convert_numeric e) ?df1 numeric_columns"
  let ?K = "\<lambda>r. datetime_key (cell_at ''datetime'' r)"
  have cell0: "cell_at k (record_row ?cols r) = record_cell r k" if "r \<in> set recs" for r k
    using that by (rule cell_at_record_row_columns)
  have get: "get_column ?df0 ''datetime'' = Inr (map (cell_at ''datetime'') (rows ?df0))"
    using key by (simp add: get_column_def)
  have "\<forall>x \<in> set (map (cell_at ''datetime'') (rows ?df0)). \<exists>t. to_datetime e x = Inr t"
    using parse by (auto simp add: cell0)
  then have stamps: "to_datetime_column (to_datetime e) (map (cell_at ''datetime'') (rows ?df0)) =
      Inr (map ?f (rows ?df0))"
    by (simp add: to_datetime_column_ok comp_def)
  have norm: "normalize_values e (JArr recs) = Inr (tail 7 (sort_values ''datetime'' ?df2))"
    unfolding normalize_values_def
    by (simp only: DataFrame_records [OF dicts] and_then_Inr get stamps)
  have cols1: "columns ?df1 = ?cols"
    using key by (simp add: set_column_def)
  have rows1: "rows ?df1 = map (\<lambda>r. AList.update ''datetime'' (?f r) r) (rows ?df0)"
    by (rule rows_set_column_map)
  have cols2: "columns ?df2 = ?cols"
    by (simp only: columns_foldl_convert cols1)
  have len2: "length (rows ?df2) = length recs"
    by (simp only: length_rows_foldl_convert rows1) simp
  have final: "tail 7 (sort_values ''datetime'' ?df2) =
      \<lparr>columns = ?cols, rows = drop (length recs - 7) (sort_key ?K (rows ?df2))\<rparr>"
    using cols2 len2 by (simp add: tail_def sort_values_def)
  have col: "map (cell_at k) (rows ?df2) =
                  map (\<lambda>r. if k = ''datetime''
                            then (case to_datetime e (record_cell r k) of
                                    Inr (Some n) \<Rightarrow> Stamp n | _ \<Rightarrow> NaT)
                            else if k \<in> set numeric_columns \<and> k \<in> set ?cols
                            then Float (to_numeric e (record_cell r k))
                            else record_cell r k) recs" for k
  proof -
    have "map (cell_at k) (rows ?df2) =
            map (\<lambda>r. if k \<in> set numeric_columns \<and> k \<in> set ?cols
                      then Float (to_numeric e (cell_at k r)) else cell_at k r) (rows ?df1)"
      using column_foldl_convert [OF distinct_numeric_columns(1), of k e ?df1]
      by (simp only: cols1)
    also have "\<dots> = map (\<lambda>r. if k = ''datetime''
                            then (case to_datetime e (record_cell r k) of
                                    Inr (Some n) \<Rightarrow> Stamp n | _ \<Rightarrow> NaT)
                            else if k \<in> set numeric_columns \<and> k \<in> set ?cols
                            then Float (to_numeric e (record_cell r k))
                            else record_cell r k) recs"
      unfolding rows1
      using distinct_numeric_columns(2)
      by (auto simp add: cell_at_update cell0)
    finally show ?thesis .
  qed
  from norm final len2 col show ?thesis
    by (intro exI [of _ "rows ?df2"]) simp
qed

lemma le_False_pair: "(False, a) \<le> (False, b) \<Longrightarrow> a \<le> (b::int)"
  by (simp add: less_eq_prod_def)

lemma sort_stamps:
  assumes "map (cell_at c) rs = map Stamp ts"
  shows "map (cell_at c) (sort_key (\<lambda>r. datetime_key (cell_at c r)) rs) = map Stamp (sort ts)"
proof -
  let ?K = "\<lambda>r. datetime_key (cell_at c r)"
  let ?g = "\<lambda>r. snd (?K r)"
  have stamp: "cell_at c r = Stamp (?g r)" if "r \<in> set rs" for r
  proof -
    from that obtain i where i: "i < length rs" "rs ! i = r"
      by (auto simp add: in_set_conv_nth)
    from assms have "length ts = length rs"
      by (metis length_map)
    with i assms have "cell_at c r = Stamp (ts ! i)"
      by (metis nth_map)
    then show ?thesis by simp
  qed
  then have key: "?K r = (False, ?g r)" if "r \<in> set rs" for r
    using that by (metis datetime_key.simps(1))
  have ts: "map ?g rs = ts"
  proof -
    have "map (\<lambda>x. snd (datetime_key x)) (map (cell_at c) rs) =
          map (\<lambda>x. snd (datetime_key x)) (map Stamp ts)"
      using assms by simp
    then show ?thesis by (simp add: comp_def)
  qed
  have "sorted (map ?K (sort_key ?K rs))"
    by (rule sorted_sort_key)
  then have "sorted_wrt (\<lambda>x y. ?K x \<le> ?K y) (sort_key ?K rs)"
    by (simp add: sorted_map)
  then have "sorted_wrt (\<lambda>x y. ?g x \<le> ?g y) (sort_key ?K rs)"
  proof (rule sorted_wrt_mono_rel [rotated])
    fix x y
    assume "x \<in> set (sort_key ?K rs)" "y \<in> set (sort_key ?K rs)" "?K x \<le> ?K y"
    then have "(False, ?g x) \<le> (False, ?g y)"
      using key [of x] key [of y] by simp
    then show "?g x \<le> ?g y"
      by (rule le_False_pair)
  qed
  then have "sorted (map ?g (sort_key ?K rs))"
    by (simp add: sorted_map)
  moreover have "mset (map ?g (sort_key ?K rs)) = mset (map ?g rs)"
    by simp
  ultimately have "sort (map ?g rs) = map ?g (sort_key ?K rs)"
    by (rule properties_for_sort [rotated])
  with ts have "map ?g (sort_key ?K rs) = sort ts"
    by simp
  moreover have "map (cell_at c) (sort_key ?K rs) = map Stamp (map ?g (sort_key ?K rs))"
    using stamp by (simp add: comp_def cong: map_cong)
  ultimately show ?thesis by simp
qed

lemma fetch_records:
  assumes "http e (time_series_request e symbol) = Inr (JObj kvs)"
    and "map_of kvs ''status'' \<noteq> Some (JStr ''error'')"
    and "map_of kvs ''values'' = Some (JArr recs)"
    and "recs \<noteq> []"
    and "normalize_values e (JArr recs) = Inr df"
  shows "fst (fetch_stock_data e symbol sent) = (Some df, JNull)"
  using assms
  by (auto simp add: fst_fetch check_and_normalize_def py_in_dict simp del: py_in.simps
        split: option.splits)

lemma datetime_column_present:
  assumes "recs \<noteq> []"
    and "\<forall>r \<in> set recs. map_of (items r) ''datetime'' \<noteq> None"
  shows "''datetime'' \<in> set (record_columns recs)"
proof -
  from assms(1) obtain r where r: "r \<in> set recs" by (cases recs) auto
  with assms(2) have "''datetime'' \<in> fst ` set (items r)"
    by (simp add: map_of_eq_None_iff)
  with r show ?thesis by (auto simp add: set_record_columns)
qed

lemma fetch_well_formed:
  assumes "http e (time_series_request e symbol) = Inr (JObj kvs)"
    and "map_of kvs ''status'' \<noteq> Some (JStr ''error'')"
    and "map_of kvs ''values'' = Some (JArr recs)"
    and "recs \<noteq> []"
    and "list_all is_dict recs"
    and "map (\<lambda>r. map_option (\<lambda>j. to_datetime e (Obj j)) (map_of (items r) ''datetime'')) recs
           = map (\<lambda>t. Some (Inr (Some t))) ts"
  shows "\<exists>df. fst (fetch_stock_data e symbol sent) = (Some df, JNull)
            \<and> columns df = record_columns recs
            \<and> length (rows df) = min 7 (length recs)
            \<and> map (cell_at ''datetime'') (rows df) = map Stamp (drop (length ts - 7) (sort ts))"
proof -
  have len: "length ts = length recs"
    using assms(6) by (metis length_map)
  have each: "\<exists>j. map_of (items r) ''datetime'' = Some j
                \<and> to_datetime e (record_cell r ''datetime'') = Inr (Some (ts ! i))"
    if "i < length recs" "recs ! i = r" for i r
  proof -
    from that len assms(6)
    have "map_option (\<lambda>j. to_datetime e (Obj j)) (map_of (items r) ''datetime'')
            = Some (Inr (Some (ts ! i)))"
      by (metis (no_types, lifting) nth_map)
    then show ?thesis
      by (auto simp add: record_cell_def)
  qed
  have has: "\<forall>r \<in> set recs. map_of (items r) ''datetime'' \<noteq> None"
    using each by (auto simp add: in_set_conv_nth)
  have parse: "\<forall>r \<in> set recs. \<exists>t. to_datetime e (record_cell r ''datetime'') = Inr t"
    using each by (metis in_set_conv_nth)
  from normalize_values_records [OF assms(5) datetime_column_present [OF assms(4) has] parse]
  obtain rs where norm: "normalize_values e (JArr recs) =
              Inr \<lparr>columns = record_columns recs,
                   rows = drop (length recs - 7)
                            (sort_key (\<lambda>r. datetime_key (cell_at ''datetime'' r)) rs)\<rparr>"
    and lrs: "length rs = length recs"
    and col: "\<And>k. map (cell_at k) rs =
                  map (\<lambda>r. if k = ''datetime''
                            then (case to_datetime e (record_cell r k) of
                                    Inr (Some n) \<Rightarrow> Stamp n | _ \<Rightarrow> NaT)
                            else if k \<in> set numeric_columns \<and> k \<in> set (record_columns recs)
                            then Float (to_numeric e (record_cell r k))
                            else record_cell r k) recs"
    by blast
  let ?df = "\<lparr>columns = record_columns recs,
                   rows = drop (length recs - 7)
                            (sort_key (\<lambda>r. datetime_key (cell_at ''datetime'' r)) rs)\<rparr>"
  have "map (cell_at ''datetime'') rs = map Stamp ts"
  proof (rule nth_equalityI)
    show "length (map (cell_at ''datetime'') rs) = length (map Stamp ts)"
      using lrs len by simp
  next
    fix i assume "i < length (map (cell_at ''datetime'') rs)"
    then have i: "i < length recs" using lrs by simp
    from each [OF i refl] have "to_datetime e (record_cell (recs ! i) ''datetime'') = Inr (Some (ts ! i))"
      by blast
    with i len show "map (cell_at ''datetime'') rs ! i = map Stamp ts ! i"
      by (simp add: col)
  qed
  from sort_stamps [OF this]
  have "drop (length recs - 7)
          (map (cell_at ''datetime'') (sort_key (\<lambda>r. datetime_key (cell_at ''datetime'' r)) rs))
        = drop (length recs - 7) (map Stamp (sort ts))"
    by (rule arg_cong)
  then have dates: "map (cell_at ''datetime'') (rows ?df) = map Stamp (drop (length ts - 7) (sort ts))"
    by (simp add: drop_map len)
  have "fst (fetch_stock_data e symbol sent) = (Some ?df, JNull)"
    using assms(1-4) norm by (rule fetch_records)
  moreover have "length (rows ?df) = min 7 (length recs)"
    using lrs by auto
  ultimately show ?thesis
    using dates by (intro exI [of _ ?df]) simp
qed

subsection \<open>What is shown\<close>

lemma emit_Inr [simp]: "emit (Inr out) = (out, None)"
  by (simp add: emit_def)

lemma emit_Inl [simp]: "emit (Inl x) = ([], Some x)"
  by (simp add: emit_def)

lemma set_seq: "set (fst (seq bs)) \<subseteq> (\<Union>b \<in> set bs. set (fst b))"
  by (induction bs rule: seq.induct) (auto split: prod.splits)

lemma fold_max_Max: "fold max rs (r::rat) = Max (set (r # rs))"
  by (rule Max.set_eq_fold [symmetric])

lemma fold_min_Min: "fold min rs (r::rat) = Min (set (r # rs))"
  by (rule Min.set_eq_fold [symmetric])

lemma series_max_values:
  "float_values cs = Some vs \<Longrightarrow> series_max cs = Inr (if vs = [] then NaN else Num (Max (set vs)))"
  by (cases vs) (simp_all add: series_max_def fold_max_Max del: set_simps)

lemma series_min_values:
  "float_values cs = Some vs \<Longrightarrow> series_min cs = Inr (if vs = [] then NaN else Num (Min (set vs)))"
  by (cases vs) (simp_all add: series_min_def fold_min_Min del: set_simps)

lemma quote_failure_gives_None:
  assumes "http e (quote_request e symbol) = Inl x
         \<or> (\<exists>kvs. http e (quote_request e symbol) = Inr (JObj kvs)
               \<and> map_of kvs ''status'' = Some (JStr ''error''))"
  shows "fst (fetch_current_quote e symbol sent) = JNull"
  using assms by (auto simp add: fetch_current_quote_def Let_def py_in_dict simp del: py_in.simps)

lemma set_seq3: "set (fst (seq [a, b, c])) \<subseteq> set (fst a) \<union> set (fst b) \<union> set (fst c)"
  using set_seq [of "[a, b, c]"] by (simp add: Un_assoc)

lemma price_block:
  assumes "ev \<in> set (fst (emit (and_then (py_get quote_data ''close'' JNull) (\<lambda>current_price.
           if truthy current_price
           then and_then (py_float e current_price) (\<lambda>p.
                  Inr [Metric 1 ''Current Price'' p None])
           else Inr []))))"
  shows "\<exists>close p. py_get quote_data ''close'' JNull = Inr close \<and> truthy close
           \<and> py_float e close = Inr p \<and> ev = Metric 1 ''Current Price'' p None"
proof (cases "py_get quote_data ''close'' JNull")
  case (Inl x)
  with assms show ?thesis by simp
next
  case (Inr close)
  show ?thesis
  proof (cases "truthy close")
    case False
    with assms Inr show ?thesis by simp
  next
    case True
    with assms Inr show ?thesis
      by (cases "py_float e close") simp_all
  qed
qed

lemma change_block:
  assumes "ev \<in> set (fst (emit (and_then (py_get quote_data ''change'' JNull) (\<lambda>change.
               and_then (py_get quote_data ''percent_change'' JNull) (\<lambda>percent_change.
           if truthy change \<and> truthy percent_change
           then and_then (py_float e change) (\<lambda>c.
                and_then (py_float e percent_change) (\<lambda>pc.
                  Inr [Metric 2 ''Daily Change'' c (Some pc)]))
           else Inr [])))))"
  shows "\<exists>change pc c q. py_get quote_data ''change'' JNull = Inr change
           \<and> py_get quote_data ''percent_change'' JNull = Inr pc
           \<and> truthy change \<and> truthy pc
           \<and> py_float e change = Inr c \<and> py_float e pc = Inr q
           \<and> ev = Metric 2 ''Daily Change'' c (Some q)"
proof (cases "py_get quote_data ''change'' JNull")
  case (Inl x)
  with assms show ?thesis by simp
next
  case change: (Inr change)
  show ?thesis
  proof (cases "py_get quote_data ''percent_change'' JNull")
    case (Inl x)
    with assms change show ?thesis by simp
  next
    case pc: (Inr pc)
    show ?thesis
    proof (cases "truthy change \<and> truthy pc")
      case False
      with assms change pc show ?thesis by auto
    next
      case True
      show ?thesis
      proof (cases "py_float e change")
        case (Inl x)
        with assms change pc True show ?thesis by simp
      next
        case c: (Inr c)
        with assms change pc True show ?thesis
          by (cases "py_float e pc") simp_all
      qed
    qed
  qed
qed

lemma range_block:
  assumes "ev \<in> set (fst (emit (if \<not> is_empty d
           then and_then (get_column d ''high'') (\<lambda>highs.
                and_then (series_max highs) (\<lambda>week_high.
                and_then (get_column d ''low'') (\<lambda>lows.
                and_then (series_min lows) (\<lambda>week_low.
                  Inr [Metric 3 ''7-Day High'' week_high None,
                       Metric 4 ''7-Day Low'' week_low None]))))
           else Inr [])))"
  shows "\<exists>v. ev = Metric 3 ''7-Day High'' v None \<or> ev = Metric 4 ''7-Day Low'' v None"
proof (cases "is_empty d")
  case True
  with assms show ?thesis by simp
next
  case False
  show ?thesis
  proof (cases "get_column d ''high''")
    case (Inl x)
    with assms False show ?thesis by simp
  next
    case hs: (Inr hs)
    show ?thesis
    proof (cases "series_max hs")
      case (Inl x)
      with assms False hs show ?thesis by simp
    next
      case wh: (Inr wh)
      show ?thesis
      proof (cases "get_column d ''low''")
        case (Inl x)
        with assms False hs wh show ?thesis by simp
      next
        case ls: (Inr ls)
        with assms False hs wh show ?thesis
          by (cases "series_min ls") auto
      qed
    qed
  qed
qed

lemma display_events:
  assumes "ev \<in> set (fst (display_stock_info e quote_data df))"
  shows "(\<exists>close p. py_get quote_data ''close'' JNull = Inr close \<and> truthy close
            \<and> py_float e close = Inr p \<and> ev = Metric 1 ''Current Price'' p None)
       \<or> (\<exists>change pc c q. py_get quote_data ''change'' JNull = Inr change
            \<and> py_get quote_data ''percent_change'' JNull = Inr pc
            \<and> truthy change \<and> truthy pc
            \<and> py_float e change = Inr c \<and> py_float e pc = Inr q
            \<and> ev = Metric 2 ''Daily Change'' c (Some q))
       \<or> (\<exists>v. ev = Metric 3 ''7-Day High'' v None \<or> ev = Metric 4 ''7-Day Low'' v None)"
proof (cases "truthy quote_data \<and> df \<noteq> None")
  case False
  with assms show ?thesis by (auto simp add: display_stock_info_def)
next
  case True
  then obtain d where d: "df = Some d" by auto
  let ?b1 = "emit (and_then (py_get quote_data ''close'' JNull) (\<lambda>current_price.
           if truthy current_price
           then and_then (py_float e current_price) (\<lambda>p.
                  Inr [Metric 1 ''Current Price'' p None])
           else Inr []))"
  let ?b2 = "emit (and_then (py_get quote_data ''change'' JNull) (\<lambda>change.
               and_then (py_get quote_data ''percent_change'' JNull) (\<lambda>percent_change.
           if truthy change \<and> truthy percent_change
           then and_then (py_float e change) (\<lambda>c.
                and_then (py_float e percent_change) (\<lambda>pc.
                  Inr [Metric 2 ''Daily Change'' c (Some pc)]))
           else Inr [])))"
  let ?b3 = "emit (if \<not> is_empty d
           then and_then (get_column d ''high'') (\<lambda>highs.
                and_then (series_max highs) (\<lambda>week_high.
                and_then (get_column d ''low'') (\<lambda>lows.
                and_then (series_min lows) (\<lambda>week_low.
                  Inr [Metric 3 ''7-Day High'' week_high None,
                       Metric 4 ''7-Day Low'' week_low None]))))
           else Inr [])"
  have "display_stock_info e quote_data df = seq [?b1, ?b2, ?b3]"
    using True d by (simp add: display_stock_info_def)
  with assms set_seq3 [of ?b1 ?b2 ?b3]
  have "ev \<in> set (fst ?b1) \<or> ev \<in> set (fst ?b2) \<or> ev \<in> set (fst ?b3)"
    by auto
  then show ?thesis
  proof (elim disjE)
    assume "ev \<in> set (fst ?b1)"
    from price_block [OF this] show ?thesis by blast
  next
    assume "ev \<in> set (fst ?b2)"
    from change_block [OF this] show ?thesis by blast
  next
    assume "ev \<in> set (fst ?b3)"
    from range_block [OF this] show ?thesis by blast
  qed
qed

lemma fetch_stock_data_pair:
  "fetch_stock_data e symbol sent =
     (fst (fetch_stock_data e symbol sent), sent @ [time_series_request e symbol])"
  by (simp add: fetch_stock_data_def Let_def)

lemma fetch_current_quote_pair:
  "fetch_current_quote e symbol sent =
     (fst (fetch_current_quote e symbol sent), sent @ [quote_request e symbol])"
  by (simp add: fetch_current_quote_def Let_def)

subsection \<open>The frame that is rendered\<close>

lemma to_datetime_column_cells:
  "to_datetime_column p xs = Inr ys \<Longrightarrow> length ys = length xs \<and> list_all is_datetime ys"
proof (induction xs arbitrary: ys)
  case Nil
  then show ?case by simp
next
  case (Cons x xs)
  then show ?case
    by (auto split: sum.splits option.splits)
qed

lemma normalize_values_datetime:
  assumes "normalize_values e v = Inr d"
  shows "''datetime'' \<in> set (columns d)
       \<and> list_all is_datetime (map (cell_at ''datetime'') (rows d))"
proof -
  let ?K = "\<lambda>r. datetime_key (cell_at ''datetime'' r)"
  from assms obtain df cells stamps
    where get: "get_column df ''datetime'' = Inr cells"
      and conv: "to_datetime_column (to_datetime e) cells = Inr stamps"
      and d: "d = tail 7 (sort_values ''datetime''
                (foldl (convert_numeric e) (set_column df ''datetime'' stamps) numeric_columns))"
    unfolding normalize_values_def by (auto simp add: and_then_eq_Inr)
  let ?df1 = "set_column df ''datetime'' stamps"
  let ?df2 = "foldl (convert_numeric e) ?df1 numeric_columns"
  from get have key: "''datetime'' \<in> set (columns df)"
    and cells: "cells = map (cell_at ''datetime'') (rows df)"
    by (auto simp add: get_column_def split: if_splits)
  from to_datetime_column_cells [OF conv]
  have len: "length stamps = length cells" and dt: "list_all is_datetime stamps"
    by simp_all
  have cols: "columns d = columns df"
    using key by (simp add: d tail_def sort_values_def columns_foldl_convert set_column_def)
  have "map (cell_at ''datetime'') (rows ?df1) = stamps"
    using len cells
    by (auto simp add: set_column_def cell_at_update intro!: nth_equalityI)
  moreover have "map (cell_at ''datetime'') (rows ?df2) = map (cell_at ''datetime'') (rows ?df1)"
    using column_foldl_convert [OF distinct_numeric_columns(1), of "''datetime''" e ?df1]
          distinct_numeric_columns(2)
    by simp
  ultimately have "list_all is_datetime (map (cell_at ''datetime'') (rows ?df2))"
    using dt by simp
  then have all: "\<forall>r \<in> set (rows ?df2). is_datetime (cell_at ''datetime'' r)"
    by (simp add: list_all_iff)
  have "set (rows d) \<subseteq> set (rows ?df2)"
    by (auto simp add: d tail_def sort_values_def dest: in_set_dropD)
  with all have "list_all is_datetime (map (cell_at ''datetime'') (rows d))"
    by (auto simp add: list_all_iff)
  with key cols show ?thesis by simp
qed

lemma check_frame_normalized:
  assumes "check_and_normalize e symbol data = Inr (Some d, err)"
  shows "\<exists>v. normalize_values e v = Inr d"
  using assms
  by (auto simp add: check_and_normalize_def and_then_eq_Inr split: if_splits)

lemma fetched_frame_datetime:
  assumes "fst (fetch_stock_data e symbol sent) = (Some d, err)"
  shows "''datetime'' \<in> set (columns d)
       \<and> list_all is_datetime (map (cell_at ''datetime'') (rows d))"
proof -
  from assms obtain data where "check_and_normalize e symbol data = Inr (Some d, err)"
    by (auto simp add: fst_fetch and_then_def split: sum.splits exn.splits)
  from check_frame_normalized [OF this] obtain v where "normalize_values e v = Inr d"
    by blast
  then show ?thesis by (rule normalize_values_datetime)
qed

lemma create_price_chart_columns:
  assumes "''datetime'' \<in> set (columns d)" and "set numeric_columns \<subseteq> set (columns d)"
  shows "create_price_chart d symbol =
           Inr \<lparr>chart_x = map (cell_at ''datetime'') (rows d),
                chart_open = map (cell_at ''open'') (rows d),
                chart_high = map (cell_at ''high'') (rows d),
                chart_low = map (cell_at ''low'') (rows d),
                chart_close = map (cell_at ''close'') (rows d),
                chart_name = upper symbol @ '' Price'',
                chart_title = upper symbol @ '' - 7-Day Price Chart''\<rparr>"
  using assms by (simp add: create_price_chart_def get_column_def numeric_columns_def)

lemma raw_data_table_columns:
  assumes "''datetime'' \<in> set (columns d)" and "set numeric_columns \<subseteq> set (columns d)"
    and "list_all is_datetime (map (cell_at ''datetime'') (rows d))"
  shows "raw_data_table d =
           Inr (map (\<lambda>r. [cell_at ''datetime'' r, cell_at ''open'' r, cell_at ''high'' r,
                          cell_at ''low'' r, cell_at ''close'' r, cell_at ''volume'' r]) (rows d))"
proof -
  have "filter (\<lambda>c. c \<notin> set (columns d)) numeric_columns = []"
    using assms(2) by (auto simp add: filter_empty_conv)
  then show ?thesis
    using assms(1,3) by (simp add: raw_data_table_def get_column_def) (simp add: numeric_columns_def)
qed

subsection \<open>Evaluations in the example environment\<close>

lemma strip_blank: "upper (strip ''   '') = []"
  by code_simp

lemma upper_long: "upper (strip ''berkshirehat'') = ''BERKSHIREHAT''"
  by code_simp

lemma upper_aapl: "upper (strip ''aapl'') = ''AAPL''"
  by code_simp

lemma nine_days_dates:
  "map (\<lambda>r. map_option (\<lambda>j. example_to_datetime (Obj j)) (map_of (items r) ''datetime''))
        [bar ''2024-01-15'' ''150.00'' ''152.00'' ''149.00'' ''150.25'' ''1000'',
         bar ''2024-01-12'' ''151.00'' ''153.00'' ''150.00'' ''151.75'' ''1100'',
         bar ''2024-01-11'' ''152.00'' ''155.00'' ''151.00'' ''152.50'' ''1200'',
         bar ''2024-01-10'' ''151.50'' ''154.00'' ''150.50'' ''153.00'' ''1300'',
         bar ''2024-01-09'' ''150.50'' ''153.50'' ''149.50'' ''152.00'' ''1400'',
         bar ''2024-01-08'' ''149.00'' ''152.50'' ''148.00'' ''151.00'' ''1500'',
         bar ''2024-01-05'' ''149.50'' ''151.50'' ''148.50'' ''150.00'' ''1600'',
         bar ''2024-01-04'' ''148.00'' ''150.00'' ''147.00'' ''149.00'' ''1700'',
         bar ''2024-01-03'' ''147.00'' ''149.00'' ''146.00'' ''148.00'' ''1800'']
   = map (\<lambda>t. Some (Inr (Some t)))
       [20240115, 20240112, 20240111, 20240110, 20240109, 20240108, 20240105, 20240104, 20240103]"
  by (simp add: bar_def)

lemma sort_nine:
  "drop 2 (sort [20240115, 20240112, 20240111, 20240110, 20240109, 20240108, 20240105, 20240104, 20240103 :: int])
     = [20240105, 20240108, 20240109, 20240110, 20240111, 20240112, 20240115]"
  by simp

lemma example_to_datetime_field: "to_datetime (example_env net) = example_to_datetime"
  by (simp add: example_env_def)

lemma example_to_numeric_field: "to_numeric (example_env net) = example_to_numeric"
  by (simp add: example_env_def)

lemma example_float_field: "float (example_env net) = example_float"
  by (simp add: example_env_def)

lemma two_days_columns:
  "columns two_days = [''datetime'', ''open'', ''high'', ''low'', ''close'', ''volume'']"
  by (simp add: two_days_def)

lemma two_days_high:
  "map (cell_at ''high'') (rows two_days) = [Float (Num 155), Float (Num 152)]"
  by (simp add: two_days_def day_row_def cell_at_def)

lemma two_days_low:
  "map (cell_at ''low'') (rows two_days) = [Float (Num 150), Float (Num 148)]"
  by (simp add: two_days_def day_row_def cell_at_def)

lemma two_days_not_empty: "\<not> is_empty two_days"
  by (simp add: is_empty_def two_days_def)

lemma mock_quote_floats:
  "parse_decimal ''150.25'' = Some 150.25"
  "parse_decimal ''-1.50'' = Some (- 1.5)"
  "parse_decimal ''-0.99'' = Some (- 0.99)"
  by (simp_all add: parse_decimal_def Let_def)

lemma one_day_DataFrame:
  "DataFrame other (JArr [bar ''2024-01-15'' ''150.00'' ''155.00'' ''148.00'' ''150.25'' ''1000'']) =
     Inr \<lparr>columns = [''datetime'', ''open'', ''high'', ''low'', ''close'', ''volume''],
          rows = [[(''datetime'', Obj (JStr ''2024-01-15'')), (''open'', Obj (JStr ''150.00'')),
                   (''high'', Obj (JStr ''155.00'')), (''low'', Obj (JStr ''148.00'')),
                   (''close'', Obj (JStr ''150.25'')), (''volume'', Obj (JStr ''1000''))]]\<rparr>"
  by (simp add: bar_def DataFrame_def record_columns_def record_row_def record_cell_def)

lemma one_day_datetime_column:
  "get_column
     \<lparr>columns = [''datetime'', ''open'', ''high'', ''low'', ''close'', ''volume''],
      rows = [[(''datetime'', Obj (JStr ''2024-01-15'')), (''open'', Obj (JStr ''150.00'')),
               (''high'', Obj (JStr ''155.00'')), (''low'', Obj (JStr ''148.00'')),
               (''close'', Obj (JStr ''150.25'')), (''volume'', Obj (JStr ''1000''))]]\<rparr>
     ''datetime'' = Inr [Obj (JStr ''2024-01-15'')]"
  by (simp add: get_column_def cell_at_def)

lemma one_day_stamps:
  "to_datetime_column (to_datetime (example_env net)) [Obj (JStr ''2024-01-15'')] = Inr [Stamp 20240115]"
  by (simp add: example_to_datetime_field)

lemma one_day_set_datetime:
  "set_column
     \<lparr>columns = [''datetime'', ''open'', ''high'', ''low'', ''close'', ''volume''],
      rows = [[(''datetime'', Obj (JStr ''2024-01-15'')), (''open'', Obj (JStr ''150.00'')),
               (''high'', Obj (JStr ''155.00'')), (''low'', Obj (JStr ''148.00'')),
               (''close'', Obj (JStr ''150.25'')), (''volume'', Obj (JStr ''1000''))]]\<rparr>
     ''datetime'' [Stamp 20240115] =
     \<lparr>columns = [''datetime'', ''open'', ''high'', ''low'', ''close'', ''volume''],
      rows = [[(''datetime'', Stamp 20240115), (''open'', Obj (JStr ''150.00'')),
               (''high'', Obj (JStr ''155.00'')), (''low'', Obj (JStr ''148.00'')),
               (''close'', Obj (JStr ''150.25'')), (''volume'', Obj (JStr ''1000''))]]\<rparr>"
  by (simp add: set_column_def)

lemma one_day_numeric:
  "foldl (convert_numeric (example_env net))
     \<lparr>columns = [''datetime'', ''open'', ''high'', ''low'', ''close'', ''volume''],
      rows = [[(''datetime'', Stamp 20240115), (''open'', Obj (JStr ''150.00'')),
               (''high'', Obj (JStr ''155.00'')), (''low'', Obj (JStr ''148.00'')),
               (''close'', Obj (JStr ''150.25'')), (''volume'', Obj (JStr ''1000''))]]\<rparr>
     numeric_columns = one_day_frame"
  by (simp add: numeric_columns_def convert_numeric_def set_column_def to_numeric_column_def
        cell_at_def example_env_def parse_decimal_def Let_def one_day_frame_def day_row_def)

lemma one_day_sorted_tail: "tail 7 (sort_values ''datetime'' one_day_frame) = one_day_frame"
  by (simp add: tail_def sort_values_def one_day_frame_def)

lemma one_day_normalized:
  "normalize_values (example_env net)
     (JArr [bar ''2024-01-15'' ''150.00'' ''155.00'' ''148.00'' ''150.25'' ''1000'']) = Inr one_day_frame"
  unfolding normalize_values_def
  by (simp only: one_day_DataFrame and_then_Inr one_day_datetime_column one_day_stamps
        one_day_set_datetime one_day_numeric one_day_sorted_tail)

lemma one_day_fetched:
  "fst (fetch_stock_data (example_env (serve_without_quote one_day)) ''AAPL'' []) =
     (Some one_day_frame, JNull)"
proof (rule fetch_records)
  show "http (example_env (serve_without_quote one_day))
          (time_series_request (example_env (serve_without_quote one_day)) ''AAPL'') =
        Inr (JObj [(''values'', JArr [bar ''2024-01-15'' ''150.00'' ''155.00'' ''148.00'' ''150.25'' ''1000'']),
                   (''status'', JStr ''ok'')])"
    by (simp add: example_http serve_without_quote_def url_time_series_request one_day_def)
  show "map_of [(''values'', JArr [bar ''2024-01-15'' ''150.00'' ''155.00'' ''148.00'' ''150.25'' ''1000'']),
                (''status'', JStr ''ok'')] ''status'' \<noteq> Some (JStr ''error'')"
    by simp
  show "map_of [(''values'', JArr [bar ''2024-01-15'' ''150.00'' ''155.00'' ''148.00'' ''150.25'' ''1000'']),
                (''status'', JStr ''ok'')] ''values'' =
        Some (JArr [bar ''2024-01-15'' ''150.00'' ''155.00'' ''148.00'' ''150.25'' ''1000''])"
    by simp
  show "[bar ''2024-01-15'' ''150.00'' ''155.00'' ''148.00'' ''150.25'' ''1000''] \<noteq> []"
    by simp
  show "normalize_values (example_env (serve_without_quote one_day))
          (JArr [bar ''2024-01-15'' ''150.00'' ''155.00'' ''148.00'' ''150.25'' ''1000'']) = Inr one_day_frame"
    by (rule one_day_normalized)
qed

lemma one_day_frame_cells:
  "map (cell_at ''datetime'') (rows one_day_frame) = [Stamp 20240115]"
  "map (cell_at ''open'') (rows one_day_frame) = [Float (Num 150)]"
  "map (cell_at ''high'') (rows one_day_frame) = [Float (Num 155)]"
  "map (cell_at ''low'') (rows one_day_frame) = [Float (Num 148)]"
  "map (cell_at ''close'') (rows one_day_frame) = [Float (Num 150.25)]"
  "map (\<lambda>r. [cell_at ''datetime'' r, cell_at ''open'' r, cell_at ''high'' r,
              cell_at ''low'' r, cell_at ''close'' r, cell_at ''volume'' r]) (rows one_day_frame) =
     [[Stamp 20240115, Float (Num 150), Float (Num 155), Float (Num 148), Float (Num 150.25),
       Float (Num 1000)]]"
  by (simp_all add: one_day_frame_def day_row_def cell_at_def)

lemma upper_AAPL: "upper ''AAPL'' = ''AAPL''"
  by code_simp

section \<open>The error outcomes of fetch_stock_data\<close>

text \<open>
  C4. When the body is an object without an error status, and its \<^verbatim>\<open>values\<close> member is
  absent or empty (or anything else Python counts as false), \<^verbatim>\<open>fetch_stock_data\<close> returns no
  frame and the message of line 57, in which the requested symbol stands.
\<close>

theorem no_data_names_symbol:
  assumes "http e (time_series_request e symbol) = Inr (JObj kvs)"
    and "map_of kvs ''status'' \<noteq> Some (JStr ''error'')"
    and "map_of kvs ''values'' = None \<or> (\<exists>v. map_of kvs ''values'' = Some v \<and> \<not> truthy v)"
  shows "fst (fetch_stock_data e symbol sent) =
           (None, JStr (''No data found for symbol '' @ symbol
                          @ ''. Please check if the symbol is valid.''))
         \<and> sublist symbol (''No data found for symbol '' @ symbol
                          @ ''. Please check if the symbol is valid.'')"
proof
  show "fst (fetch_stock_data e symbol sent) =
          (None, JStr (''No data found for symbol '' @ symbol
                         @ ''. Please check if the symbol is valid.''))"
    using assms by (simp add: fst_fetch check_no_values no_data_message_def)
  show "sublist symbol (''No data found for symbol '' @ symbol
                         @ ''. Please check if the symbol is valid.'')"
    by (rule sublist_appendI)
qed

theorem no_data_names_symbol_witness:
  "http (example_env (serve (JObj [(''values'', JArr [])]) mock_quote))
     (time_series_request (example_env (serve (JObj [(''values'', JArr [])]) mock_quote)) ''ZZZZ'')
     = Inr (JObj [(''values'', JArr [])])
   \<and> map_of [(''values'', JArr [])] ''status'' \<noteq> Some (JStr ''error'')
   \<and> (\<exists>v. map_of [(''values'', JArr [])] ''values'' = Some v \<and> \<not> truthy v)
   \<and> fst (fetch_stock_data (example_env (serve (JObj [(''values'', JArr [])]) mock_quote))
           ''ZZZZ'' []) =
       (None, JStr ''No data found for symbol ZZZZ. Please check if the symbol is valid.'')"
  using no_data_names_symbol
          [of "example_env (serve (JObj [(''values'', JArr [])]) mock_quote)" "''ZZZZ''"
              "[(''values'', JArr [])]" "[]"]
  by (simp add: example_http serve_time_series)

text \<open>
  C5, as stated: whenever the body carries the error status, the function returns no
  frame and the provider's own message text. It fails on a body that has the status and
  no message: the text returned then is the program's own.
\<close>

theorem api_error_without_message:
  "\<not> (\<forall>e symbol sent kvs.
        http e (time_series_request e symbol) = Inr (JObj kvs)
        \<and> map_of kvs ''status'' = Some (JStr ''error'')
        \<longrightarrow> (\<exists>m. map_of kvs ''message'' = Some (JStr m)
                 \<and> fst (fetch_stock_data e symbol sent) = (None, JStr m)))"
proof
  assume a: "\<forall>e symbol sent kvs.
        http e (time_series_request e symbol) = Inr (JObj kvs)
        \<and> map_of kvs ''status'' = Some (JStr ''error'')
        \<longrightarrow> (\<exists>m. map_of kvs ''message'' = Some (JStr m)
                 \<and> fst (fetch_stock_data e symbol sent) = (None, JStr m))"
  have "\<exists>m. map_of [(''status'', JStr ''error'')] ''message'' = Some (JStr m)"
    using a [rule_format,
             of "example_env (serve (JObj [(''status'', JStr ''error'')]) mock_quote)"
               "''AAPL''" "[(''status'', JStr ''error'')]" "[]"]
    by (simp add: example_http serve_time_series)
  then show False by simp
qed

text \<open>
  C5, amended: whenever the body carries the error status, the function returns no frame,
  and as the error the \<^verbatim>\<open>message\<close> member of the body when it has one, the text
  \<^verbatim>\<open>API returned an error\<close> when it has none.
\<close>

theorem api_error_message:
  assumes "http e (time_series_request e symbol) = Inr (JObj kvs)"
    and "map_of kvs ''status'' = Some (JStr ''error'')"
  shows "fst (fetch_stock_data e symbol sent) =
           (None, case map_of kvs ''message'' of
                    None \<Rightarrow> JStr ''API returned an error''
                  | Some m \<Rightarrow> m)"
  using assms by (simp add: fst_fetch check_error_status)

theorem api_error_message_witness:
  "fst (fetch_stock_data
          (example_env (serve (JObj [(''code'', JNum 404), (''message'', JStr ''symbol not found''),
                                     (''status'', JStr ''error'')]) mock_quote)) ''ZZZZ'' [])
     = (None, JStr ''symbol not found'')
   \<and> fst (fetch_stock_data
          (example_env (serve (JObj [(''status'', JStr ''error'')]) mock_quote)) ''ZZZZ'' [])
     = (None, JStr ''API returned an error'')"
  using api_error_message
          [of "example_env (serve (JObj [(''code'', JNum 404),
                 (''message'', JStr ''symbol not found''), (''status'', JStr ''error'')]) mock_quote)"
              "''ZZZZ''"
              "[(''code'', JNum 404), (''message'', JStr ''symbol not found''),
                (''status'', JStr ''error'')]" "[]"]
        api_error_message
          [of "example_env (serve (JObj [(''status'', JStr ''error'')]) mock_quote)" "''ZZZZ''"
              "[(''status'', JStr ''error'')]" "[]"]
  by (simp add: example_http serve_time_series)

text \<open>
  C9, as stated: the function always returns, and its pair is either a frame with no
  error or no frame with a non-empty message. The model returns on every input; but on a
  body with the error status whose \<^verbatim>\<open>message\<close> is null, both components are \<^verbatim>\<open>None\<close>.
\<close>

theorem api_error_null_message:
  "fst (fetch_stock_data
          (example_env (serve (JObj [(''status'', JStr ''error''), (''message'', JNull)])
                          mock_quote))
          ''AAPL'' []) = (None, JNull)"
  by (simp add: fst_fetch example_http serve_time_series check_error_status)

text \<open>
  C9, amended: the function always returns, never with both a frame and an error, and its
  pair is a frame with the error \<^verbatim>\<open>None\<close>, or no frame with a non-empty message, or, on a
  body with the error status, no frame with whatever the body gives as its \<^verbatim>\<open>message\<close>
  (the default text when it gives none).
\<close>

theorem fetch_result_shape:
  assumes "fst (fetch_stock_data e symbol sent) = (df, err)"
  shows "(df \<noteq> None \<and> err = JNull)
       \<or> (df = None \<and> (\<exists>m. err = JStr m \<and> m \<noteq> []))
       \<or> (df = None \<and> (\<exists>kvs. http e (time_series_request e symbol) = Inr (JObj kvs)
             \<and> map_of kvs ''status'' = Some (JStr ''error'')
             \<and> err = (case map_of kvs ''message'' of
                         None \<Rightarrow> JStr ''API returned an error''
                       | Some m \<Rightarrow> m)))"
proof (cases "http e (time_series_request e symbol)")
  case (Inl x)
  with assms show ?thesis
    by (cases x) (auto simp add: fst_fetch)
next
  case (Inr data)
  show ?thesis
  proof (cases "check_and_normalize e symbol data")
    case (Inl x)
    with assms Inr show ?thesis
      by (cases x) (auto simp add: fst_fetch)
  next
    case inner: (Inr result)
    with assms Inr have "check_and_normalize e symbol data = Inr (df, err)"
      by (simp add: fst_fetch)
    from check_cases [OF this] Inr show ?thesis
      by (auto simp add: no_data_message_def)
  qed
qed

theorem fetch_result_shape_witness:
  "fst (fetch_stock_data
          (example_env (serve_without_quote (JObj [(''values'', JArr [JNum 1])]))) ''AAPL'' [])
     = (None, JStr ''Error processing data: DataFrame constructor not properly called!'')"
  using fetch_result_shape
          [of "example_env (serve_without_quote (JObj [(''values'', JArr [JNum 1])]))" "''AAPL''" "[]"
              "fst (fst (fetch_stock_data
                 (example_env (serve_without_quote (JObj [(''values'', JArr [JNum 1])])))
                 ''AAPL'' []))"
              "snd (fst (fetch_stock_data
                 (example_env (serve_without_quote (JObj [(''values'', JArr [JNum 1])])))
                 ''AAPL'' []))"]
  by (simp add: fst_fetch example_http serve_without_quote_def url_time_series_request
        check_and_normalize_def normalize_values_def DataFrame_def example_env_def)

section \<open>The request\<close>

text \<open>
  C7. For every symbol, the one request \<^verbatim>\<open>fetch_stock_data\<close> sends goes to the path
  \<^verbatim>\<open>/time_series\<close> of the provider, with the symbol in upper case, the interval
  \<^verbatim>\<open>1day\<close>, the dates of ten days ago and of today printed with \<^verbatim>\<open>%Y-%m-%d\<close>, the credential,
  and the format \<^verbatim>\<open>JSON\<close>.
\<close>

theorem time_series_request_sent:
  "snd (fetch_stock_data e symbol sent) = sent @
     [\<lparr>url = ''https://api.twelvedata.com/time_series'',
       params = [(''symbol'', upper symbol),
                 (''interval'', ''1day''),
                 (''start_date'', strftime e ''%Y-%m-%d'' (now e - 10)),
                 (''end_date'', strftime e ''%Y-%m-%d'' (now e)),
                 (''apikey'', API_KEY e),
                 (''format'', ''JSON'')],
       timeout = 10\<rparr>]"
  by (simp add: fetch_stock_data_def time_series_request_def BASE_URL_def timedelta_days_def
        Let_def)

section \<open>The normalized series\<close>

text \<open>
  C1. On a body without error status whose \<^verbatim>\<open>values\<close> is a non-empty list of records, each
  with a \<^verbatim>\<open>datetime\<close> that parses (to the timestamps \<open>ts\<close>, in the order of the payload),
  \<^verbatim>\<open>fetch_stock_data\<close> returns a frame and no error; the dates of its rows are the last seven
  of \<open>ts\<close> in ascending order (all of them when there are fewer), so they are sorted and at
  most seven, and exactly seven, the most recent, when the payload has nine records.
\<close>

theorem last_seven_sorted:
  assumes "http e (time_series_request e symbol) = Inr (JObj kvs)"
    and "map_of kvs ''status'' \<noteq> Some (JStr ''error'')"
    and "map_of kvs ''values'' = Some (JArr recs)"
    and "recs \<noteq> []"
    and "list_all is_dict recs"
    and "map (\<lambda>r. map_option (\<lambda>j. to_datetime e (Obj j)) (map_of (items r) ''datetime'')) recs
           = map (\<lambda>t. Some (Inr (Some t))) ts"
  shows "\<exists>df. fst (fetch_stock_data e symbol sent) = (Some df, JNull)
            \<and> map (cell_at ''datetime'') (rows df) = map Stamp (drop (length ts - 7) (sort ts))
            \<and> sorted (drop (length ts - 7) (sort ts))
            \<and> length (rows df) \<le> 7
            \<and> (length recs = 9 \<longrightarrow> length (rows df) = 7)"
proof -
  from fetch_well_formed [OF assms]
  obtain df where "fst (fetch_stock_data e symbol sent) = (Some df, JNull)"
    and "length (rows df) = min 7 (length recs)"
    and "map (cell_at ''datetime'') (rows df) = map Stamp (drop (length ts - 7) (sort ts))"
    by blast
  moreover have "sorted (drop (length ts - 7) (sort ts))"
    by simp
  ultimately show ?thesis
    by (intro exI [of _ df]) simp
qed

theorem last_seven_sorted_witness:
  "\<exists>df. fst (fetch_stock_data (example_env (serve nine_days mock_quote)) ''AAPL'' []) = (Some df, JNull)
      \<and> map (cell_at ''datetime'') (rows df) =
          map Stamp [20240105, 20240108, 20240109, 20240110, 20240111, 20240112, 20240115]
      \<and> length (rows df) = 7"
proof -
  let ?e = "example_env (serve nine_days mock_quote)"
  let ?recs = "[bar ''2024-01-15'' ''150.00'' ''152.00'' ''149.00'' ''150.25'' ''1000'',
         bar ''2024-01-12'' ''151.00'' ''153.00'' ''150.00'' ''151.75'' ''1100'',
         bar ''2024-01-11'' ''152.00'' ''155.00'' ''151.00'' ''152.50'' ''1200'',
         bar ''2024-01-10'' ''151.50'' ''154.00'' ''150.50'' ''153.00'' ''1300'',
         bar ''2024-01-09'' ''150.50'' ''153.50'' ''149.50'' ''152.00'' ''1400'',
         bar ''2024-01-08'' ''149.00'' ''152.50'' ''148.00'' ''151.00'' ''1500'',
         bar ''2024-01-05'' ''149.50'' ''151.50'' ''148.50'' ''150.00'' ''1600'',
         bar ''2024-01-04'' ''148.00'' ''150.00'' ''147.00'' ''149.00'' ''1700'',
         bar ''2024-01-03'' ''147.00'' ''149.00'' ''146.00'' ''148.00'' ''1800'']"
  let ?kvs = "[(''meta'', JObj [(''symbol'', JStr ''AAPL''), (''interval'', JStr ''1day'')]),
      (''values'', JArr ?recs), (''status'', JStr ''ok'')]"
  let ?ts = "[20240115, 20240112, 20240111, 20240110, 20240109, 20240108, 20240105, 20240104, 20240103 :: int]"
  have h1: "http ?e (time_series_request ?e ''AAPL'') = Inr (JObj ?kvs)"
    by (simp add: example_http serve_time_series nine_days_def)
  have h2: "map_of ?kvs ''status'' \<noteq> Some (JStr ''error'')"
    by simp
  have h3: "map_of ?kvs ''values'' = Some (JArr ?recs)"
    by simp
  have h4: "?recs \<noteq> []"
    by simp
  have h5: "list_all is_dict ?recs"
    by (simp add: bar_def)
  have h6: "map (\<lambda>r. map_option (\<lambda>j. to_datetime ?e (Obj j)) (map_of (items r) ''datetime'')) ?recs
              = map (\<lambda>t. Some (Inr (Some t))) ?ts"
    using nine_days_dates by (simp add: example_env_def)
  from last_seven_sorted [OF h1 h2 h3 h4 h5 h6, of "[]"] show ?thesis
    by (auto simp add: sort_nine)
qed

text \<open>
  C8. On such a body, whatever the numeric fields hold: the frame is returned, no record
  is lost but by the cut to the last seven, every row carries the timestamp of its record,
  and in each of the columns open, high, low, close and volume that the frame has, the
  row carries the number \<^verbatim>\<open>to_numeric\<close> makes of the record's field, NaN when it makes none.
\<close>

theorem numeric_fields_coerced:
  assumes "http e (time_series_request e symbol) = Inr (JObj kvs)"
    and "map_of kvs ''status'' \<noteq> Some (JStr ''error'')"
    and "map_of kvs ''values'' = Some (JArr recs)"
    and "recs \<noteq> []"
    and "list_all is_dict recs"
    and "\<forall>r \<in> set recs. \<exists>j t. map_of (items r) ''datetime'' = Some j
                               \<and> to_datetime e (Obj j) = Inr (Some t)"
  shows "\<exists>df. fst (fetch_stock_data e symbol sent) = (Some df, JNull)
            \<and> columns df = record_columns recs
            \<and> length (rows df) = min 7 (length recs)
            \<and> (\<forall>row \<in> set (rows df). \<exists>r \<in> set recs.
                  (\<exists>t. to_datetime e (record_cell r ''datetime'') = Inr (Some t)
                       \<and> cell_at ''datetime'' row = Stamp t)
                \<and> (\<forall>c \<in> set numeric_columns. c \<in> set (columns df) \<longrightarrow>
                       cell_at c row = Float (to_numeric e (record_cell r c))))"
proof -
  have each: "\<exists>t. to_datetime e (record_cell r ''datetime'') = Inr (Some t)"
    if "r \<in> set recs" for r
    using assms(6) that by (auto simp add: record_cell_def)
  have has: "\<forall>r \<in> set recs. map_of (items r) ''datetime'' \<noteq> None"
    using assms(6) by auto
  have parse: "\<forall>r \<in> set recs. \<exists>t. to_datetime e (record_cell r ''datetime'') = Inr t"
    using each by blast
  from normalize_values_records [OF assms(5) datetime_column_present [OF assms(4) has] parse]
  obtain rs where norm: "normalize_values e (JArr recs) =
              Inr \<lparr>columns = record_columns recs,
                   rows = drop (length recs - 7)
                            (sort_key (\<lambda>r. datetime_key (cell_at ''datetime'' r)) rs)\<rparr>"
    and lrs: "length rs = length recs"
    and col: "\<And>k. map (cell_at k) rs =
                  map (\<lambda>r. if k = ''datetime''
                            then (case to_datetime e (record_cell r k) of
                                    Inr (Some n) \<Rightarrow> Stamp n | _ \<Rightarrow> NaT)
                            else if k \<in> set numeric_columns \<and> k \<in> set (record_columns recs)
                            then Float (to_numeric e (record_cell r k))
                            else record_cell r k) recs"
    by blast
  let ?df = "\<lparr>columns = record_columns recs,
                   rows = drop (length recs - 7)
                            (sort_key (\<lambda>r. datetime_key (cell_at ''datetime'' r)) rs)\<rparr>"
  have fetch: "fst (fetch_stock_data e symbol sent) = (Some ?df, JNull)"
    using assms(1-4) norm by (rule fetch_records)
  have len: "length (rows ?df) = min 7 (length recs)"
    using lrs by auto
  have rows: "\<exists>r \<in> set recs.
                  (\<exists>t. to_datetime e (record_cell r ''datetime'') = Inr (Some t)
                       \<and> cell_at ''datetime'' row = Stamp t)
                \<and> (\<forall>c \<in> set numeric_columns. c \<in> set (columns ?df) \<longrightarrow>
                       cell_at c row = Float (to_numeric e (record_cell r c)))"
    if "row \<in> set (rows ?df)" for row
  proof -
    from that have "row \<in> set rs"
      by (auto dest: in_set_dropD)
    then obtain i where i: "i < length rs" "rs ! i = row"
      by (auto simp add: in_set_conv_nth)
    have cell: "cell_at k row = (if k = ''datetime''
                            then (case to_datetime e (record_cell (recs ! i) k) of
                                    Inr (Some n) \<Rightarrow> Stamp n | _ \<Rightarrow> NaT)
                            else if k \<in> set numeric_columns \<and> k \<in> set (record_columns recs)
                            then Float (to_numeric e (record_cell (recs ! i) k))
                            else record_cell (recs ! i) k)" for k
    proof -
      have "cell_at k row = map (cell_at k) rs ! i"
        using i by simp
      also have "\<dots> = (if k = ''datetime''
                            then (case to_datetime e (record_cell (recs ! i) k) of
                                    Inr (Some n) \<Rightarrow> Stamp n | _ \<Rightarrow> NaT)
                            else if k \<in> set numeric_columns \<and> k \<in> set (record_columns recs)
                            then Float (to_numeric e (record_cell (recs ! i) k))
                            else record_cell (recs ! i) k)"
        unfolding col using i lrs by simp
      finally show ?thesis .
    qed
    have mem: "recs ! i \<in> set recs"
      using i lrs by simp
    from each [OF mem] obtain t where t: "to_datetime e (record_cell (recs ! i) ''datetime'') = Inr (Some t)"
      by blast
    then have "cell_at ''datetime'' row = Stamp t"
      by (simp add: cell)
    moreover have "\<forall>c \<in> set numeric_columns. c \<in> set (columns ?df) \<longrightarrow>
                       cell_at c row = Float (to_numeric e (record_cell (recs ! i) c))"
      using distinct_numeric_columns(2) by (auto simp add: cell)
    ultimately show ?thesis
      using mem t by blast
  qed
  from fetch len rows show ?thesis
    by (intro exI [of _ ?df]) simp
qed

theorem numeric_fields_coerced_witness:
  "\<exists>df. fst (fetch_stock_data (example_env (serve patchy_day mock_quote)) ''AAPL'' []) = (Some df, JNull)
      \<and> length (rows df) = 1
      \<and> (\<forall>row \<in> set (rows df).
            cell_at ''datetime'' row = Stamp 20240115
          \<and> cell_at ''open'' row = Float NaN
          \<and> cell_at ''high'' row = Float (Num 155)
          \<and> cell_at ''volume'' row = Float NaN)"
proof -
  let ?e = "example_env (serve patchy_day mock_quote)"
  let ?rec = "JObj [(''datetime'', JStr ''2024-01-15''), (''open'', JStr ''N/A''),
               (''high'', JStr ''155.00''), (''low'', JStr ''148.00''),
               (''close'', JStr ''150.25''), (''volume'', JNull)]"
  let ?kvs = "[(''values'', JArr [?rec]), (''status'', JStr ''ok'')]"
  have h1: "http ?e (time_series_request ?e ''AAPL'') = Inr (JObj ?kvs)"
    by (simp add: example_http serve_time_series patchy_day_def)
  have h2: "map_of ?kvs ''status'' \<noteq> Some (JStr ''error'')"
    by simp
  have h3: "map_of ?kvs ''values'' = Some (JArr [?rec])"
    by simp
  have h4: "[?rec] \<noteq> []"
    by simp
  have h5: "list_all is_dict [?rec]"
    by simp
  have h6: "\<forall>r \<in> set [?rec]. \<exists>j t. map_of (items r) ''datetime'' = Some j
                               \<and> to_datetime ?e (Obj j) = Inr (Some t)"
    by (simp add: example_to_datetime_field)
  have cols: "record_columns [?rec] = [''datetime'', ''open'', ''high'', ''low'', ''close'', ''volume'']"
    by (simp add: record_columns_def)
  have d: "to_datetime ?e (record_cell ?rec ''datetime'') = Inr (Some 20240115)"
    by (simp add: example_to_datetime_field record_cell_def)
  have o: "to_numeric ?e (record_cell ?rec ''open'') = NaN"
    by (simp add: example_to_numeric_field record_cell_def parse_decimal_def Let_def)
  have h: "to_numeric ?e (record_cell ?rec ''high'') = Num 155"
    by (simp add: example_to_numeric_field record_cell_def parse_decimal_def Let_def)
  have v: "to_numeric ?e (record_cell ?rec ''volume'') = NaN"
    by (simp add: example_to_numeric_field record_cell_def)
  from numeric_fields_coerced [OF h1 h2 h3 h4 h5 h6, of "[]"] show ?thesis
    by (auto simp add: cols d o h v numeric_columns_def)
qed

section \<open>The statistics shown\<close>

text \<open>
  C2, as stated: each of the four statistics is shown whenever its own inputs are there,
  and a missing quote does not keep the week's high and low from being shown. It fails:
  with no quote (\<^verbatim>\<open>None\<close>), \<^verbatim>\<open>display_stock_info\<close> shows nothing at all, though the frame
  has a week high of 155 and a week low of 148.
\<close>

theorem absent_quote_hides_week_range:
  "\<not> is_empty two_days
   \<and> and_then (get_column two_days ''high'') series_max = Inr (Num 155)
   \<and> and_then (get_column two_days ''low'') series_min = Inr (Num 148)
   \<and> display_stock_info (example_env (serve_without_quote one_day)) JNull (Some two_days) = ([], None)"
  by (simp add: two_days_not_empty get_column_def two_days_columns two_days_high two_days_low
        series_max_def series_min_def display_stock_info_def)

text \<open>
  C2, amended: when the quote is there (a non-empty object) and its fields, where given,
  are numbers \<^verbatim>\<open>float\<close> accepts, the current price is shown as \<^verbatim>\<open>float(close)\<close> when
  \<^verbatim>\<open>close\<close> is truthy, the daily change as \<^verbatim>\<open>float(change)\<close> with \<^verbatim>\<open>float(percent_change)\<close>
  when both are truthy, and, when the frame is not empty and its high and low columns
  are float columns, the week high as the greatest of the highs and the week low as the
  least of the lows (NaN cells skipped); each of the three groups is shown or left out
  on its own. When the quote is absent or empty, none of the four is shown.
\<close>

theorem derived_statistics:
  assumes "truthy quote_data"
    and "py_get quote_data ''close'' JNull = Inr close"
    and "py_get quote_data ''change'' JNull = Inr change"
    and "py_get quote_data ''percent_change'' JNull = Inr pc"
    and "truthy close \<Longrightarrow> float e close = Inr p"
    and "truthy change \<and> truthy pc \<Longrightarrow> float e change = Inr c \<and> float e pc = Inr q"
    and "\<not> is_empty d \<Longrightarrow>
           ''high'' \<in> set (columns d) \<and> ''low'' \<in> set (columns d)
           \<and> float_values (map (cell_at ''high'') (rows d)) = Some hv
           \<and> float_values (map (cell_at ''low'') (rows d)) = Some lv"
  shows "display_stock_info e quote_data (Some d) =
           ((if truthy close then [Metric 1 ''Current Price'' p None] else [])
            @ (if truthy change \<and> truthy pc then [Metric 2 ''Daily Change'' c (Some q)] else [])
            @ (if \<not> is_empty d
               then [Metric 3 ''7-Day High'' (if hv = [] then NaN else Num (Max (set hv))) None,
                     Metric 4 ''7-Day Low'' (if lv = [] then NaN else Num (Min (set lv))) None]
               else []), None)
         \<and> (\<forall>absent df. \<not> truthy absent \<longrightarrow> display_stock_info e absent df = ([], None))"
proof
  have b1: "emit (and_then (py_get quote_data ''close'' JNull) (\<lambda>current_price.
           if truthy current_price
           then and_then (py_float e current_price) (\<lambda>p.
                  Inr [Metric 1 ''Current Price'' p None])
           else Inr [])) = ((if truthy close then [Metric 1 ''Current Price'' p None] else []), None)"
    using assms(2,5) by (simp add: py_float_def)
  have b2: "emit (and_then (py_get quote_data ''change'' JNull) (\<lambda>change.
               and_then (py_get quote_data ''percent_change'' JNull) (\<lambda>percent_change.
           if truthy change \<and> truthy percent_change
           then and_then (py_float e change) (\<lambda>c.
                and_then (py_float e percent_change) (\<lambda>pc.
                  Inr [Metric 2 ''Daily Change'' c (Some pc)]))
           else Inr []))) = ((if truthy change \<and> truthy pc then [Metric 2 ''Daily Change'' c (Some q)] else []), None)"
    using assms(3,4,6) by (simp add: py_float_def)
  have b3: "emit (if \<not> is_empty d
           then and_then (get_column d ''high'') (\<lambda>highs.
                and_then (series_max highs) (\<lambda>week_high.
                and_then (get_column d ''low'') (\<lambda>lows.
                and_then (series_min lows) (\<lambda>week_low.
                  Inr [Metric 3 ''7-Day High'' week_high None,
                       Metric 4 ''7-Day Low'' week_low None]))))
           else Inr []) = ((if \<not> is_empty d
               then [Metric 3 ''7-Day High'' (if hv = [] then NaN else Num (Max (set hv))) None,
                     Metric 4 ''7-Day Low'' (if lv = [] then NaN else Num (Min (set lv))) None]
               else []), None)"
  proof (cases "is_empty d")
    case True
    then show ?thesis by simp
  next
    case False
    with assms(7) have h: "get_column d ''high'' = Inr (map (cell_at ''high'') (rows d))"
      and l: "get_column d ''low'' = Inr (map (cell_at ''low'') (rows d))"
      and hv: "series_max (map (cell_at ''high'') (rows d)) = Inr (if hv = [] then NaN else Num (Max (set hv)))"
      and lv: "series_min (map (cell_at ''low'') (rows d)) = Inr (if lv = [] then NaN else Num (Min (set lv)))"
      by (simp_all add: get_column_def series_max_values series_min_values)
    from False show ?thesis
      by (simp only: h l hv lv and_then_Inr emit_Inr if_True if_False not_False_eq_True)
  qed
  show "display_stock_info e quote_data (Some d) =
           ((if truthy close then [Metric 1 ''Current Price'' p None] else [])
            @ (if truthy change \<and> truthy pc then [Metric 2 ''Daily Change'' c (Some q)] else [])
            @ (if \<not> is_empty d
               then [Metric 3 ''7-Day High'' (if hv = [] then NaN else Num (Max (set hv))) None,
                     Metric 4 ''7-Day Low'' (if lv = [] then NaN else Num (Min (set lv))) None]
               else []), None)"
    unfolding display_stock_info_def using assms(1)
    by (simp only: option.sel b1 b2 b3 seq.simps prod.case append_Nil2 if_True option.distinct simp_thms)
  show "\<forall>absent df. \<not> truthy absent \<longrightarrow> display_stock_info e absent df = ([], None)"
    by (simp add: display_stock_info_def)
qed

theorem derived_statistics_witness:
  "display_stock_info (example_env (serve one_day mock_quote)) mock_quote (Some two_days) =
     ([Metric 1 ''Current Price'' (Num 150.25) None,
       Metric 2 ''Daily Change'' (Num (- 1.5)) (Some (Num (- 0.99))),
       Metric 3 ''7-Day High'' (Num 155) None,
       Metric 4 ''7-Day Low'' (Num 148) None], None)"
  using derived_statistics [of mock_quote "JStr ''150.25''" "JStr ''-1.50''" "JStr ''-0.99''"
          "example_env (serve one_day mock_quote)" "Num 150.25" "Num (- 1.5)" "Num (- 0.99)"
          two_days "[155, 152]" "[150, 148]"]
  by (simp add: mock_quote_def example_float_field mock_quote_floats two_days_not_empty
        two_days_columns two_days_high two_days_low)

text \<open>
  C10. The fields of the quote are tested for truth, not for presence: when \<^verbatim>\<open>close\<close> is
  zero, empty, null or missing, no Current Price is shown, and when \<^verbatim>\<open>change\<close> or
  \<^verbatim>\<open>percent_change\<close> is, no Daily Change is shown, a change of zero included.
\<close>

theorem falsy_quote_fields_omitted:
  assumes "py_get quote_data ''close'' JNull = Inr close"
      and "py_get quote_data ''change'' JNull = Inr change"
      and "py_get quote_data ''percent_change'' JNull = Inr pc"
  shows "(\<not> truthy close \<longrightarrow>
            (\<forall>n v d. Metric n ''Current Price'' v d \<notin> set (fst (display_stock_info e quote_data df))))
       \<and> (\<not> truthy change \<or> \<not> truthy pc \<longrightarrow>
            (\<forall>n v d. Metric n ''Daily Change'' v d \<notin> set (fst (display_stock_info e quote_data df))))"
proof (intro conjI impI allI notI)
  fix n v d
  assume "\<not> truthy close"
    and "Metric n ''Current Price'' v d \<in> set (fst (display_stock_info e quote_data df))"
  with display_events [of "Metric n ''Current Price'' v d" e quote_data df] assms
  show False by auto
next
  fix n v d
  assume "\<not> truthy change \<or> \<not> truthy pc"
    and "Metric n ''Daily Change'' v d \<in> set (fst (display_stock_info e quote_data df))"
  with display_events [of "Metric n ''Daily Change'' v d" e quote_data df] assms
  show False by auto
qed

theorem falsy_quote_fields_omitted_witness:
  "\<not> truthy (JNum 0)
   \<and> (\<forall>n v d. Metric n ''Current Price'' v d \<notin>
         set (fst (display_stock_info (example_env (serve one_day mock_quote))
                (JObj [(''close'', JNum 0), (''change'', JNum 0), (''percent_change'', JStr ''0.00'')])
                (Some two_days))))
   \<and> (\<forall>n v d. Metric n ''Daily Change'' v d \<notin>
         set (fst (display_stock_info (example_env (serve one_day mock_quote))
                (JObj [(''close'', JNum 0), (''change'', JNum 0), (''percent_change'', JStr ''0.00'')])
                (Some two_days))))"
  using falsy_quote_fields_omitted [of "JObj [(''close'', JNum 0), (''change'', JNum 0), (''percent_change'', JStr ''0.00'')]"
          "JNum 0" "JNum 0" "JStr ''0.00''" "example_env (serve one_day mock_quote)" "Some two_days"]
  by simp

section \<open>One run of the page\<close>

text \<open>
  C3. When the quote request fails (the request raises, the response is not a success,
  the body does not decode, or the body carries the error status), \<^verbatim>\<open>fetch_current_quote\<close>
  returns \<^verbatim>\<open>None\<close>. When the series was fetched, with the five price and volume columns,
  the run of \<^verbatim>\<open>main\<close> then ends without an exception after both requests, and shows the
  success message, no metric of the quote, the chart drawn from the columns of the
  series, and the table of its rows.
\<close>

theorem quote_failure_not_fatal:
  assumes "http e (quote_request e symbol) = Inl x
         \<or> (\<exists>kvs. http e (quote_request e symbol) = Inr (JObj kvs)
               \<and> map_of kvs ''status'' = Some (JStr ''error''))"
    and "text_input \<noteq> []"
    and "symbol = upper (strip text_input)"
    and "1 \<le> length symbol"
    and "length symbol \<le> 10"
    and "fst (fetch_stock_data e symbol []) = (Some d, JNull)"
    and "\<not> is_empty d"
    and "set numeric_columns \<subseteq> set (columns d)"
  shows "fst (fetch_current_quote e symbol sent) = JNull
       \<and> main e text_input =
           (([Success symbol,
              Subheader symbol,
              Plotly_chart
                \<lparr>chart_x = map (cell_at ''datetime'') (rows d),
                 chart_open = map (cell_at ''open'') (rows d),
                 chart_high = map (cell_at ''high'') (rows d),
                 chart_low = map (cell_at ''low'') (rows d),
                 chart_close = map (cell_at ''close'') (rows d),
                 chart_name = upper symbol @ '' Price'',
                 chart_title = upper symbol @ '' - 7-Day Price Chart''\<rparr>,
              Dataframe
                (map (\<lambda>r. [cell_at ''datetime'' r, cell_at ''open'' r, cell_at ''high'' r,
                             cell_at ''low'' r, cell_at ''close'' r, cell_at ''volume'' r])
                   (rows d))],
             None),
            [time_series_request e symbol, quote_request e symbol])"
proof
  show "fst (fetch_current_quote e symbol sent) = JNull"
    using assms(1) by (rule quote_failure_gives_None)
next
  let ?c = "\<lparr>chart_x = map (cell_at ''datetime'') (rows d),
                 chart_open = map (cell_at ''open'') (rows d),
                 chart_high = map (cell_at ''high'') (rows d),
                 chart_low = map (cell_at ''low'') (rows d),
                 chart_close = map (cell_at ''close'') (rows d),
                 chart_name = upper symbol @ '' Price'',
                 chart_title = upper symbol @ '' - 7-Day Price Chart''\<rparr>"
  let ?t = "map (\<lambda>r. [cell_at ''datetime'' r, cell_at ''open'' r, cell_at ''high'' r,
                             cell_at ''low'' r, cell_at ''close'' r, cell_at ''volume'' r])
                   (rows d)"
  from fetched_frame_datetime [OF assms(6)]
  have key: "''datetime'' \<in> set (columns d)"
    and dates: "list_all is_datetime (map (cell_at ''datetime'') (rows d))"
    by simp_all
  have chart: "create_price_chart d symbol = Inr ?c"
    using key assms(8) by (rule create_price_chart_columns)
  have table: "raw_data_table d = Inr ?t"
    using key assms(8) dates by (rule raw_data_table_columns)
  have f: "fetch_stock_data e symbol [] = ((Some d, JNull), [time_series_request e symbol])"
    using fetch_stock_data_pair [of e symbol "[]"] assms(6) by simp
  have "fst (fetch_current_quote e symbol [time_series_request e symbol]) = JNull"
    using assms(1) by (rule quote_failure_gives_None)
  then have q: "fetch_current_quote e symbol [time_series_request e symbol] =
                  (JNull, [time_series_request e symbol, quote_request e symbol])"
    using fetch_current_quote_pair [of e symbol "[time_series_request e symbol]"] by simp
  have ne: "upper (strip text_input) \<noteq> []"
    using assms(4) unfolding assms(3) by auto
  have "main e text_input =
          (seq [([Success symbol], None), display_stock_info e JNull (Some d),
                ([Subheader symbol], None),
                emit (and_then (create_price_chart d symbol) (\<lambda>c. Inr [Plotly_chart c])),
                emit (and_then (raw_data_table d) (\<lambda>t. Inr [Dataframe t]))],
           [time_series_request e symbol, quote_request e symbol])"
    using assms(2,4,5,7) ne unfolding assms(3)
    by (simp add: main_def Let_def f [unfolded assms(3)] q [unfolded assms(3)])
  also have "seq [([Success symbol], None), display_stock_info e JNull (Some d),
                ([Subheader symbol], None),
                emit (and_then (create_price_chart d symbol) (\<lambda>c. Inr [Plotly_chart c])),
                emit (and_then (raw_data_table d) (\<lambda>t. Inr [Dataframe t]))] =
             ([Success symbol, Subheader symbol, Plotly_chart ?c, Dataframe ?t], None)"
    by (simp add: chart table display_stock_info_def)
  finally show "main e text_input =
           (([Success symbol, Subheader symbol, Plotly_chart ?c, Dataframe ?t], None),
            [time_series_request e symbol, quote_request e symbol])" .
qed

theorem quote_failure_not_fatal_witness:
  "http (example_env (serve_without_quote one_day))
     (quote_request (example_env (serve_without_quote one_day)) ''AAPL'') =
     Inl (RequestException ''Read timed out. (read timeout=10)'')
   \<and> fst (fetch_current_quote (example_env (serve_without_quote one_day)) ''AAPL'' []) = JNull
   \<and> main (example_env (serve_without_quote one_day)) ''aapl'' =
       (([Success ''AAPL'',
          Subheader ''AAPL'',
          Plotly_chart
            \<lparr>chart_x = [Stamp 20240115],
             chart_open = [Float (Num 150)],
             chart_high = [Float (Num 155)],
             chart_low = [Float (Num 148)],
             chart_close = [Float (Num 150.25)],
             chart_name = ''AAPL Price'',
             chart_title = ''AAPL - 7-Day Price Chart''\<rparr>,
          Dataframe
            [[Stamp 20240115, Float (Num 150), Float (Num 155), Float (Num 148),
              Float (Num 150.25), Float (Num 1000)]]],
         None),
        [time_series_request (example_env (serve_without_quote one_day)) ''AAPL'',
         quote_request (example_env (serve_without_quote one_day)) ''AAPL''])"
proof -
  let ?e = "example_env (serve_without_quote one_day)"
  have timed_out: "http ?e (quote_request ?e ''AAPL'') =
                     Inl (RequestException ''Read timed out. (read timeout=10)'')"
    by (simp add: example_http serve_without_quote_def url_quote_request)
  then have fail: "http ?e (quote_request ?e ''AAPL'') =
                     Inl (RequestException ''Read timed out. (read timeout=10)'')
         \<or> (\<exists>kvs. http ?e (quote_request ?e ''AAPL'') = Inr (JObj kvs)
               \<and> map_of kvs ''status'' = Some (JStr ''error''))"
    by simp
  have ne: "\<not> is_empty one_day_frame"
    by (simp add: is_empty_def one_day_frame_def)
  have cols: "set numeric_columns \<subseteq> set (columns one_day_frame)"
    by (simp add: numeric_columns_def one_day_frame_def)
  from quote_failure_not_fatal
         [where sent = "[]" and text_input = "''aapl''",
          OF fail _ upper_aapl [symmetric] _ _ one_day_fetched ne cols]
       timed_out
  show ?thesis
    by (simp add: one_day_frame_cells upper_AAPL)
qed

text \<open>
  C6, as stated: every input whose normalized length is 0 or above 10 is rejected with the
  validation error, and nothing is sent. It fails for the empty input: the guard of line
  182 skips the lookup, and the instructions are shown, not the validation error.
\<close>

theorem empty_input_no_validation_error:
  "\<not> (\<forall>e text_input.
        length (upper (strip text_input)) = 0 \<or> 10 < length (upper (strip text_input))
        \<longrightarrow> fst (main e text_input) = ([Error_invalid_symbol], None) \<and> snd (main e text_input) = [])"
proof
  assume a: "\<forall>e text_input.
        length (upper (strip text_input)) = 0 \<or> 10 < length (upper (strip text_input))
        \<longrightarrow> fst (main e text_input) = ([Error_invalid_symbol], None) \<and> snd (main e text_input) = []"
  have "fst (main (example_env (serve nine_days mock_quote)) '''') = ([Error_invalid_symbol], None)"
    using a [rule_format, of "''''" "example_env (serve nine_days mock_quote)"]
    by (simp add: upper_def strip_def)
  then show False by (simp add: main_def)
qed

text \<open>
  C6, amended: for every input whose normalized length is 0 or above 10 no request is
  sent; the validation error is shown when the input is not empty, and the instructions
  are shown when it is.
\<close>

theorem invalid_symbol_sends_nothing:
  assumes "length (upper (strip text_input)) = 0 \<or> 10 < length (upper (strip text_input))"
  shows "snd (main e text_input) = []
       \<and> fst (main e text_input) =
           (if text_input = [] then ([Info_instructions], None) else ([Error_invalid_symbol], None))"
  using assms by (auto simp add: main_def Let_def)

theorem invalid_symbol_sends_nothing_witness:
  "length (upper (strip ''   '')) = 0
   \<and> main (example_env (serve nine_days mock_quote)) ''   '' = (([Error_invalid_symbol], None), [])
   \<and> 10 < length (upper (strip ''berkshirehat''))
   \<and> main (example_env (serve nine_days mock_quote)) ''berkshirehat'' = (([Error_invalid_symbol], None), [])"
  using invalid_symbol_sends_nothing [of "''   ''" "example_env (serve nine_days mock_quote)"]
        invalid_symbol_sends_nothing [of "''berkshirehat''" "example_env (serve nine_days mock_quote)"]
  by (simp add: strip_blank upper_long prod_eq_iff)

end
